theory Spec2Isabelle
  imports Main
begin

section \<open>Requests, responses and errors\<close>

text \<open>
  The session layer of the wallet client lives in two source files:
  \<^verbatim>\<open>src/services/api.ts\<close> (the axios instance \<^verbatim>\<open>api\<close> with its two interceptors and
  the service objects) and \<^verbatim>\<open>src/context/AuthContext.tsx\<close> (the React provider with
  \<^verbatim>\<open>signIn\<close>, \<^verbatim>\<open>signUp\<close>, \<^verbatim>\<open>signOut\<close>). Both are embedded here.

  What the embedding takes from the collaborators rather than from the code:
  \<^item> AsyncStorage calls succeed: \<^verbatim>\<open>getItem\<close> resolves to the stored string or \<^verbatim>\<open>null\<close>,
    \<^verbatim>\<open>setItem\<close> and \<^verbatim>\<open>removeItem\<close> resolve;
  \<^item> a response body has the fields the client reads, so the token endpoints answer
    with both \<^verbatim>\<open>access_token\<close> and \<^verbatim>\<open>refresh_token\<close>;
  \<^item> axios rejects a response whose status is outside 2xx (its default
    \<^verbatim>\<open>validateStatus\<close>) with an error that carries the response and the request
    configuration;
  \<^item> the server fixes its reply when it receives a request, as a function of the request
    and of the requests it received before.
  \<^verbatim>\<open>console.error\<close> has no effect on any of the state below and is left out. Two field
  names are changed where the source's name is taken: \<^verbatim>\<open>method\<close> is \<open>http_method\<close>,
  and the \<^verbatim>\<open>data\<close> of a request is \<open>payload\<close>; the fields of \<^verbatim>\<open>User\<close> carry the prefix
  \<open>user_\<close> where the registration form has a field of the same name.
\<close>

datatype meth = GET | POST | PUT

text \<open>The \<^verbatim>\<open>User\<close> interface of the context, and the registration form (\<^verbatim>\<open>userData: any\<close>,
  of which the code reads \<^verbatim>\<open>username\<close> and \<^verbatim>\<open>password\<close>).\<close>

record User =
  user_id :: string
  user_username :: string
  user_email :: string
  user_first_name :: string
  user_last_name :: string

record userData =
  username :: string
  password :: string
  email :: string
  first_name :: string
  last_name :: string
  date_of_birth :: string

datatype payload =
    NoData
  | EmptyObject
  | FormData "(string \<times> string) list"
  | Json userData

text \<open>An axios request configuration: the URL, the method, the two headers the code sets,
  and the request body.\<close>

record config =
  url :: string
  http_method :: meth
  Authorization :: "string option"
  Content_Type :: string
  payload :: payload

text \<open>A response body, with the fields the client reads: the token endpoints fill
  \<^verbatim>\<open>access_token\<close> and \<^verbatim>\<open>refresh_token\<close>, \<^verbatim>\<open>/users/me\<close> fills the profile.\<close>

record body =
  access_token :: string
  refresh_token :: string
  profile :: User

record response =
  status :: nat
  data :: body

text \<open>What the transport hands back: nothing at all, or a status code with a body.\<close>

datatype reply = NoResponse | Reply nat body

text \<open>An axios error: \<^verbatim>\<open>error.config\<close> always, \<^verbatim>\<open>error.response\<close> when a response arrived.\<close>

datatype error =
    NetworkError config
  | HttpError config response

fun error_response :: "error \<Rightarrow> response option" where
  "error_response (NetworkError c) = None"
| "error_response (HttpError c r) = Some r"

fun error_config :: "error \<Rightarrow> config" where
  "error_config (NetworkError c) = c"
| "error_config (HttpError c r) = c"

text \<open>\<^verbatim>\<open>error.response && error.response.status === 401\<close>\<close>

definition is401 :: "error \<Rightarrow> bool" where
  "is401 e = (case error_response e of None \<Rightarrow> False | Some r \<Rightarrow> status r = 401)"

text \<open>How a promise settles.\<close>

datatype 'a outcome = Resolved 'a | Rejected error

section \<open>Asynchronous procedures\<close>

text \<open>
  An \<^verbatim>\<open>async\<close> function is a tree of the operations it awaits: the three AsyncStorage
  calls, a request handed to the transport, and the three React state setters. A
  continuation takes what the awaited operation resolves to. \<open>Return\<close> resolves the
  promise, \<open>Throw\<close> rejects it.
\<close>

datatype 'a proc =
    Return 'a
  | Throw error
  | GetItem string "string option \<Rightarrow> 'a proc"
  | SetItem string string "'a proc"
  | RemoveItem string "'a proc"
  | Http config "reply \<Rightarrow> 'a proc"
  | SetUser "User option" "'a proc"
  | SetIsLoading bool "'a proc"
  | SetIsSignedIn bool "'a proc"

text \<open>\<^verbatim>\<open>const x = await p; k(x)\<close>\<close>

primrec bind :: "'a proc \<Rightarrow> ('a \<Rightarrow> 'b proc) \<Rightarrow> 'b proc" where
  "bind (Return x) k = k x"
| "bind (Throw e) k = Throw e"
| "bind (GetItem key f) k = GetItem key (\<lambda>v. bind (f v) k)"
| "bind (SetItem key v p) k = SetItem key v (bind p k)"
| "bind (RemoveItem key p) k = RemoveItem key (bind p k)"
| "bind (Http c f) k = Http c (\<lambda>r. bind (f r) k)"
| "bind (SetUser u p) k = SetUser u (bind p k)"
| "bind (SetIsLoading b p) k = SetIsLoading b (bind p k)"
| "bind (SetIsSignedIn b p) k = SetIsSignedIn b (bind p k)"

text \<open>\<^verbatim>\<open>try { p } catch (e) { h(e) }\<close>\<close>

primrec try_catch :: "'a proc \<Rightarrow> (error \<Rightarrow> 'a proc) \<Rightarrow> 'a proc" where
  "try_catch (Return x) h = Return x"
| "try_catch (Throw e) h = h e"
| "try_catch (GetItem key f) h = GetItem key (\<lambda>v. try_catch (f v) h)"
| "try_catch (SetItem key v p) h = SetItem key v (try_catch p h)"
| "try_catch (RemoveItem key p) h = RemoveItem key (try_catch p h)"
| "try_catch (Http c f) h = Http c (\<lambda>r. try_catch (f r) h)"
| "try_catch (SetUser u p) h = SetUser u (try_catch p h)"
| "try_catch (SetIsLoading b p) h = SetIsLoading b (try_catch p h)"
| "try_catch (SetIsSignedIn b p) h = SetIsSignedIn b (try_catch p h)"

text \<open>\<^verbatim>\<open>try { p } finally { q }\<close>: \<open>q\<close> runs on both exits; when it completes normally the
  completion of \<open>p\<close> stands, when it throws its error replaces it.\<close>

primrec try_finally :: "'a proc \<Rightarrow> unit proc \<Rightarrow> 'a proc" where
  "try_finally (Return x) q = bind q (\<lambda>_. Return x)"
| "try_finally (Throw e) q = bind q (\<lambda>_. Throw e)"
| "try_finally (GetItem key f) q = GetItem key (\<lambda>v. try_finally (f v) q)"
| "try_finally (SetItem key v p) q = SetItem key v (try_finally p q)"
| "try_finally (RemoveItem key p) q = RemoveItem key (try_finally p q)"
| "try_finally (Http c f) q = Http c (\<lambda>r. try_finally (f r) q)"
| "try_finally (SetUser u p) q = SetUser u (try_finally p q)"
| "try_finally (SetIsLoading b p) q = SetIsLoading b (try_finally p q)"
| "try_finally (SetIsSignedIn b p) q = SetIsSignedIn b (try_finally p q)"

text \<open>An \<^verbatim>\<open>async\<close> function that returns a promise adopts it: \<^verbatim>\<open>return q\<close> without
  \<^verbatim>\<open>await\<close> inside a \<^verbatim>\<open>try\<close> leaves the block before \<open>q\<close> settles, so a rejection of
  \<open>q\<close> is not seen by the \<^verbatim>\<open>catch\<close>.\<close>

definition adopt :: "'a proc proc \<Rightarrow> 'a proc" where
  "adopt p = bind p (\<lambda>q. q)"

text \<open>JavaScript truthiness of what \<^verbatim>\<open>getItem\<close> resolves to: \<^verbatim>\<open>null\<close> and the empty
  string are falsy.\<close>

fun truthy :: "string option \<Rightarrow> bool" where
  "truthy None = False"
| "truthy (Some s) = (s \<noteq> [])"

section \<open>\<^verbatim>\<open>src/services/api.ts\<close>\<close>

definition API_URL :: string where
  "API_URL = ''http://10.0.2.2:8000''"

text \<open>The global \<^verbatim>\<open>axios\<close>: no interceptors. A status outside 2xx rejects with an error
  that carries the response; no response rejects with an error that carries none.\<close>

definition validateStatus :: "nat \<Rightarrow> bool" where
  "validateStatus st = (200 \<le> st \<and> st < 300)"

definition axios :: "config \<Rightarrow> response proc" where
  "axios c = Http c (\<lambda>r. case r of
       NoResponse \<Rightarrow> Throw (NetworkError c)
     | Reply st d \<Rightarrow>
         if validateStatus st then Return \<lparr>status = st, data = d\<rparr>
         else Throw (HttpError c \<lparr>status = st, data = d\<rparr>))"

text \<open>What a request through the global \<^verbatim>\<open>axios\<close> settles to, given the reply.\<close>

fun settled :: "config \<Rightarrow> reply \<Rightarrow> response outcome" where
  "settled c NoResponse = Rejected (NetworkError c)"
| "settled c (Reply st d) =
     (if validateStatus st then Resolved \<lparr>status = st, data = d\<rparr>
      else Rejected (HttpError c \<lparr>status = st, data = d\<rparr>))"

text \<open>Request interceptor of \<^verbatim>\<open>api\<close>.\<close>

definition request_interceptor :: "config \<Rightarrow> config proc" where
  "request_interceptor c = GetItem ''token'' (\<lambda>token.
     if truthy token then Return (c\<lparr>Authorization := Some (''Bearer '' @ the token)\<rparr>)
     else Return c)"

text \<open>Response interceptor of \<^verbatim>\<open>api\<close>, the rejection handler (the fulfilment handler is
  the identity). Both \<^verbatim>\<open>return Promise.reject(error)\<close> and \<^verbatim>\<open>return axios(error.config)\<close>
  leave the \<^verbatim>\<open>try\<close> with a promise, hence \<open>adopt\<close>.\<close>

definition refresh_config :: "string \<Rightarrow> config" where
  "refresh_config refreshToken =
     \<lparr>url = API_URL @ ''/auth/refresh'', http_method = POST,
      Authorization = Some (''Bearer '' @ refreshToken),
      Content_Type = ''application/json'', payload = EmptyObject\<rparr>"

definition response_interceptor :: "error \<Rightarrow> response proc" where
  "response_interceptor error =
     (if is401 error then
        adopt (try_catch
          (GetItem ''refreshToken'' (\<lambda>refreshToken.
             if \<not> truthy refreshToken then
               RemoveItem ''token'' (RemoveItem ''refreshToken'' (Return (Throw error)))
             else
               bind (axios (refresh_config (the refreshToken))) (\<lambda>response.
                 SetItem ''token'' (access_token (data response))
                   (SetItem ''refreshToken'' (refresh_token (data response))
                     (Return (axios ((error_config error)
                        \<lparr>Authorization := Some (''Bearer '' @ access_token (data response))\<rparr>)))))))
          (\<lambda>refreshError.
             RemoveItem ''token'' (RemoveItem ''refreshToken'' (Return (Throw error)))))
      else Throw error)"

text \<open>A request through the instance \<^verbatim>\<open>api\<close>: request interceptor, transport, response
  interceptor.\<close>

definition api :: "config \<Rightarrow> response proc" where
  "api c = bind (request_interceptor c) (\<lambda>c'. try_catch (axios c') response_interceptor)"

definition api_post :: "string \<Rightarrow> payload \<Rightarrow> response proc" where
  "api_post path d = api \<lparr>url = API_URL @ path, http_method = POST, Authorization = None,
     Content_Type = ''application/json'', payload = d\<rparr>"

definition api_get :: "string \<Rightarrow> response proc" where
  "api_get path = api \<lparr>url = API_URL @ path, http_method = GET, Authorization = None,
     Content_Type = ''application/json'', payload = NoData\<rparr>"

subsection \<open>\<^verbatim>\<open>authService\<close> and \<^verbatim>\<open>userService\<close>\<close>

definition login_config :: "string \<Rightarrow> string \<Rightarrow> config" where
  "login_config u p =
     \<lparr>url = API_URL @ ''/auth/token'', http_method = POST, Authorization = None,
      Content_Type = ''multipart/form-data'',
      payload = FormData [(''username'', u), (''password'', p)]\<rparr>"

definition login :: "string \<Rightarrow> string \<Rightarrow> body proc" where
  "login u p = bind (axios (login_config u p)) (\<lambda>response.
     SetItem ''token'' (access_token (data response))
       (SetItem ''refreshToken'' (refresh_token (data response))
         (Return (data response))))"

definition register :: "userData \<Rightarrow> body proc" where
  "register ud = bind (api_post ''/auth/register'' (Json ud)) (\<lambda>response. Return (data response))"

definition logout :: "unit proc" where
  "logout = try_finally
     (bind (api_post ''/auth/logout'' NoData) (\<lambda>_. Return ()))
     (RemoveItem ''token'' (RemoveItem ''refreshToken'' (Return ())))"

definition isAuthenticated :: "bool proc" where
  "isAuthenticated = GetItem ''token'' (\<lambda>token. Return (truthy token))"

definition getUserProfile :: "body proc" where
  "getUserProfile = bind (api_get ''/users/me'') (\<lambda>response. Return (data response))"

section \<open>\<^verbatim>\<open>src/context/AuthContext.tsx\<close>\<close>

definition loadUserProfile :: "unit proc" where
  "loadUserProfile = try_catch
     (bind getUserProfile (\<lambda>d. SetUser (Some (profile d)) (Return ())))
     (\<lambda>error. Throw error)"

definition signIn :: "string \<Rightarrow> string \<Rightarrow> unit proc" where
  "signIn u p = try_finally
     (try_catch
        (SetIsLoading True
          (bind (login u p) (\<lambda>_.
           bind loadUserProfile (\<lambda>_.
           SetIsSignedIn True (Return ())))))
        (\<lambda>error. Throw error))
     (SetIsLoading False (Return ()))"

definition signUp :: "userData \<Rightarrow> unit proc" where
  "signUp ud = try_finally
     (try_catch
        (SetIsLoading True
          (bind (register ud) (\<lambda>_.
           signIn (username ud) (password ud))))
        (\<lambda>error. Throw error))
     (SetIsLoading False (Return ()))"

definition signOut :: "unit proc" where
  "signOut = try_finally
     (try_catch
        (SetIsLoading True
          (bind logout (\<lambda>_.
           SetUser None (SetIsSignedIn False (Return ())))))
        (\<lambda>error. Throw error))
     (SetIsLoading False (Return ()))"

section \<open>The world and its semantics\<close>

text \<open>The state outside the procedures: AsyncStorage, the log of the requests handed to
  the transport (oldest first), and the three React state cells of the provider.\<close>

record world =
  storage :: "string \<rightharpoonup> string"
  net :: "config list"
  user :: "User option"
  isLoading :: bool
  isSignedIn :: bool

text \<open>The remote side: what it replies to a request, given the requests it has seen
  before.\<close>

type_synonym server = "config list \<Rightarrow> config \<Rightarrow> reply"

text \<open>One procedure run to its end with nothing interleaved.\<close>

primrec run :: "server \<Rightarrow> 'a proc \<Rightarrow> world \<Rightarrow> 'a outcome \<times> world" where
  "run srv (Return x) w = (Resolved x, w)"
| "run srv (Throw e) w = (Rejected e, w)"
| "run srv (GetItem key f) w = run srv (f (storage w key)) w"
| "run srv (SetItem key v p) w = run srv p (w\<lparr>storage := (storage w)(key \<mapsto> v)\<rparr>)"
| "run srv (RemoveItem key p) w = run srv p (w\<lparr>storage := (storage w)(key := None)\<rparr>)"
| "run srv (Http c f) w = run srv (f (srv (net w) c)) (w\<lparr>net := net w @ [c]\<rparr>)"
| "run srv (SetUser u p) w = run srv p (w\<lparr>user := u\<rparr>)"
| "run srv (SetIsLoading b p) w = run srv p (w\<lparr>isLoading := b\<rparr>)"
| "run srv (SetIsSignedIn b p) w = run srv p (w\<lparr>isSignedIn := b\<rparr>)"

section \<open>Interleaving\<close>

text \<open>
  Control leaves a procedure only where it awaits storage or the network. A task is
  either about to perform its next awaited operation, or has handed a request to the
  transport and waits for the reply, which the server fixed when it received the request.
  The React setters are synchronous: they run in the same turn as the code before them.
\<close>

datatype 'a task = Ready "'a proc" | Waiting "'a proc"

primrec settle :: "'a proc \<Rightarrow> world \<Rightarrow> 'a proc \<times> world" where
  "settle (Return x) w = (Return x, w)"
| "settle (Throw e) w = (Throw e, w)"
| "settle (GetItem key f) w = (GetItem key f, w)"
| "settle (SetItem key v p) w = (SetItem key v p, w)"
| "settle (RemoveItem key p) w = (RemoveItem key p, w)"
| "settle (Http c f) w = (Http c f, w)"
| "settle (SetUser u p) w = settle p (w\<lparr>user := u\<rparr>)"
| "settle (SetIsLoading b p) w = settle p (w\<lparr>isLoading := b\<rparr>)"
| "settle (SetIsSignedIn b p) w = settle p (w\<lparr>isSignedIn := b\<rparr>)"

definition resume :: "'a proc \<Rightarrow> world \<Rightarrow> 'a task \<times> world" where
  "resume p w = (case settle p w of (p', w') \<Rightarrow> (Ready p', w'))"

text \<open>Calling an \<^verbatim>\<open>async\<close> function runs it up to its first \<^verbatim>\<open>await\<close>.\<close>

definition spawn :: "'a proc \<Rightarrow> world \<Rightarrow> 'a task \<times> world" where
  "spawn p w = resume p w"

text \<open>One turn of one task: the awaited operation takes effect and the task runs on to
  its next \<^verbatim>\<open>await\<close>; a request is handed to the transport; or the reply comes back.
  A task that stands before a setter has not been called yet: its first turn is the call,
  which runs to the first \<^verbatim>\<open>await\<close>. A finished task stays as it is.\<close>

fun step :: "server \<Rightarrow> 'a task \<Rightarrow> world \<Rightarrow> 'a task \<times> world" where
  "step srv (Waiting p) w = resume p w"
| "step srv (Ready (GetItem key f)) w = resume (f (storage w key)) w"
| "step srv (Ready (SetItem key v p)) w = resume p (w\<lparr>storage := (storage w)(key \<mapsto> v)\<rparr>)"
| "step srv (Ready (RemoveItem key p)) w = resume p (w\<lparr>storage := (storage w)(key := None)\<rparr>)"
| "step srv (Ready (Http c f)) w = (Waiting (f (srv (net w) c)), w\<lparr>net := net w @ [c]\<rparr>)"
| "step srv (Ready p) w = resume p w"

fun result :: "'a task \<Rightarrow> 'a outcome option" where
  "result (Ready (Return x)) = Some (Resolved x)"
| "result (Ready (Throw e)) = Some (Rejected e)"
| "result t = None"

text \<open>A schedule names, turn by turn, the task that runs.\<close>

fun sched :: "server \<Rightarrow> nat list \<Rightarrow> 'a task list \<times> world \<Rightarrow> 'a task list \<times> world" where
  "sched srv [] (ts, w) = (ts, w)"
| "sched srv (i # is) (ts, w) =
     (if i < length ts then
        (case step srv (ts ! i) w of (t', w') \<Rightarrow> sched srv is (ts[i := t'], w'))
      else sched srv is (ts, w))"


text \<open>\<open>n\<close> turns of a single task.\<close>

primrec turns :: "server \<Rightarrow> nat \<Rightarrow> 'a task \<times> world \<Rightarrow> 'a task \<times> world" where
  "turns srv 0 c = c"
| "turns srv (Suc n) c = turns srv n (step srv (fst c) (snd c))"

text \<open>The task that has settled with a given outcome.\<close>

fun finished :: "'a outcome \<times> world \<Rightarrow> 'a task \<times> world" where
  "finished (Resolved x, w) = (Ready (Return x), w)"
| "finished (Rejected e, w) = (Ready (Throw e), w)"

text \<open>What the specification calls \<^verbatim>\<open>AuthExpired\<close>: the client has no error type of its
  own, a caller learns that its credentials are gone from a rejection that carries a
  401 response.\<close>

fun AuthExpired :: "'a outcome \<Rightarrow> bool" where
  "AuthExpired (Resolved x) = False"
| "AuthExpired (Rejected e) = is401 e"

definition tokens_cleared :: "world \<Rightarrow> bool" where
  "tokens_cleared w = (storage w ''token'' = None \<and> storage w ''refreshToken'' = None)"

section \<open>Concrete inputs\<close>

definition no_user :: User where
  "no_user = \<lparr>user_id = [], user_username = [], user_email = [], user_first_name = [],
     user_last_name = []\<rparr>"

definition token_body :: "string \<Rightarrow> string \<Rightarrow> body" where
  "token_body a r = \<lparr>access_token = a, refresh_token = r, profile = no_user\<rparr>"

text \<open>A server that gives the same reply to everything.\<close>

definition always :: "reply \<Rightarrow> server" where
  "always r = (\<lambda>h c. r)"

text \<open>A world with nothing stored and nobody signed in, and the world of a signed-in
  user.\<close>

definition fresh :: world where
  "fresh = \<lparr>storage = Map.empty, net = [], user = None, isLoading = False, isSignedIn = False\<rparr>"

definition signed_in :: "string \<Rightarrow> string \<Rightarrow> world" where
  "signed_in a r = \<lparr>storage = [''token'' \<mapsto> a, ''refreshToken'' \<mapsto> r], net = [],
     user = Some no_user, isLoading = False, isSignedIn = True\<rparr>"

definition profile_config :: "string option \<Rightarrow> config" where
  "profile_config auth = \<lparr>url = API_URL @ ''/users/me'', http_method = GET, Authorization = auth,
     Content_Type = ''application/json'', payload = NoData\<rparr>"

text \<open>The rejection of a profile request that carried the access token \<^verbatim>\<open>A1\<close> and was
  answered 401.\<close>

definition e401 :: error where
  "e401 = HttpError (profile_config (Some ''Bearer A1''))
     \<lparr>status = 401, data = token_body [] []\<rparr>"

text \<open>The configuration the request interceptor hands on in a given world.\<close>

definition with_token :: "world \<Rightarrow> config \<Rightarrow> config" where
  "with_token w c = (if truthy (storage w ''token'')
     then c\<lparr>Authorization := Some (''Bearer '' @ the (storage w ''token''))\<rparr> else c)"

text \<open>A server that accepts every refresh with the pair \<^verbatim>\<open>A2\<close>, \<^verbatim>\<open>R2\<close> and answers 401 to
  everything else.\<close>

definition refresh_only :: server where
  "refresh_only h c = (if url c = API_URL @ ''/auth/refresh''
     then Reply 200 (token_body ''A2'' ''R2'') else Reply 401 (token_body [] []))"

definition clear_tokens :: "world \<Rightarrow> world" where
  "clear_tokens w = w\<lparr>storage := (storage w)(''token'' := None, ''refreshToken'' := None)\<rparr>"

definition logout_config :: "string option \<Rightarrow> config" where
  "logout_config auth = \<lparr>url = API_URL @ ''/auth/logout'', http_method = POST,
     Authorization = auth, Content_Type = ''application/json'', payload = NoData\<rparr>"

definition register_config :: "string option \<Rightarrow> userData \<Rightarrow> config" where
  "register_config auth ud = \<lparr>url = API_URL @ ''/auth/register'', http_method = POST,
     Authorization = auth, Content_Type = ''application/json'', payload = Json ud\<rparr>"

text \<open>A server that accepts every login with the pair \<^verbatim>\<open>A1\<close>, \<^verbatim>\<open>R1\<close> and answers 401 to
  everything else.\<close>

definition login_only :: server where
  "login_only h c = (if url c = API_URL @ ''/auth/token''
     then Reply 200 (token_body ''A1'' ''R1'') else Reply 401 (token_body [] []))"

definition alice :: userData where
  "alice = \<lparr>username = ''alice'', password = ''Secret123'', email = ''alice@example.com'',
     first_name = ''Alice'', last_name = ''A'', date_of_birth = ''2000-01-01''\<rparr>"

text \<open>A server that accepts every login with the pair \<^verbatim>\<open>A1\<close>, \<^verbatim>\<open>R1\<close> and is unreachable
  for everything else.\<close>

definition login_then_silent :: server where
  "login_then_silent h c = (if url c = API_URL @ ''/auth/token''
     then Reply 200 (token_body ''A1'' ''R1'') else NoResponse)"

section \<open>Concurrent tasks\<close>



fun is_Waiting :: "'a task \<Rightarrow> bool" where
  "is_Waiting (Waiting p) = True"
| "is_Waiting (Ready p) = False"



text \<open>A server for which the access token \<^verbatim>\<open>A1\<close> has expired on the profile endpoint,
  which accepts every refresh with the pair \<^verbatim>\<open>A2\<close>, \<^verbatim>\<open>R2\<close>, and accepts everything else.\<close>

definition stale_A1 :: server where
  "stale_A1 h c =
     (if url c = API_URL @ ''/auth/refresh'' then Reply 200 (token_body ''A2'' ''R2'')
      else if url c = API_URL @ ''/users/me'' \<and> Authorization c = Some ''Bearer A1''
        then Reply 401 (token_body [] [])
      else Reply 200 (token_body [] []))"

text \<open>A profile reload (task 0) and a sign-out (task 1) of a signed-in user, and a schedule
  in three parts: the reload runs until its refresh request is in flight; \<^verbatim>\<open>signOut\<close> is
  called and runs to its end; the refresh reply arrives and the reload runs to its end.\<close>

definition profile_and_signOut :: "unit task list \<times> world" where
  "profile_and_signOut = ([Ready loadUserProfile, Ready signOut], signed_in ''A1'' ''R1'')"

definition refresh_in_flight :: "nat list" where
  "refresh_in_flight = [0, 0, 0, 0, 0]"

definition signOut_runs :: "nat list" where
  "signOut_runs = [1, 1, 1, 1, 1, 1]"

definition refresh_lands :: "nat list" where
  "refresh_lands = [0, 0, 0, 0, 0]"











text \<open>The procedure that settles with a given outcome.\<close>

fun complete :: "'a outcome \<Rightarrow> 'a proc" where
  "complete (Resolved x) = Return x"
| "complete (Rejected e) = Throw e"




section \<open>Running the combinators\<close>

lemma run_bind:
  "run srv (bind p k) w =
     (case run srv p w of
        (Resolved x, w') \<Rightarrow> run srv (k x) w'
      | (Rejected e, w') \<Rightarrow> (Rejected e, w'))"
  by (induction p arbitrary: w) simp_all

lemma run_try_catch:
  "run srv (try_catch p h) w =
     (case run srv p w of
        (Resolved x, w') \<Rightarrow> (Resolved x, w')
      | (Rejected e, w') \<Rightarrow> run srv (h e) w')"
  by (induction p arbitrary: w) simp_all

lemma run_try_finally:
  "run srv (try_finally p q) w =
     (case run srv p w of (r, w') \<Rightarrow>
        (case run srv q w' of
           (Resolved u, w'') \<Rightarrow> (r, w'')
         | (Rejected e, w'') \<Rightarrow> (Rejected e, w'')))"
  by (induction p arbitrary: w) (simp_all add: run_bind split: prod.splits outcome.splits)

lemma run_axios:
  "run srv (axios c) w = (settled c (srv (net w) c), w\<lparr>net := net w @ [c]\<rparr>)"
  by (cases "srv (net w) c") (simp_all add: axios_def)

section \<open>A task left alone\<close>

text \<open>\<open>run\<close> is the turn-by-turn semantics with no other task in between: a task that
  takes turn after turn settles, with the outcome and in the world that \<open>run\<close> computes.\<close>

lemma turns_finished: "turns srv n (finished c) = finished c"
  by (induction n) (cases c rule: finished.cases; simp add: resume_def)+

lemma turns_add: "turns srv (m + n) c = turns srv n (turns srv m c)"
  by (induction m arbitrary: c) simp_all

lemma turns_resume:
  assumes "turns srv n (Ready p, w) = finished c"
  shows "\<exists>m. turns srv m (resume p w) = finished c"
proof (cases n)
  case 0
  with assms have "(Ready p, w) = finished c" by simp
  then have "resume p w = finished c"
    by (cases c rule: finished.cases) (auto simp: resume_def)
  then have "turns srv 0 (resume p w) = finished c" by simp
  then show ?thesis by blast
next
  case (Suc k)
  show ?thesis
  proof (cases "resume p w = (Ready p, w)")
    case True
    with assms show ?thesis by metis
  next
    case False
    then have "step srv (Ready p) w = resume p w"
      by (cases p) (simp_all add: resume_def)
    with assms Suc have "turns srv k (resume p w) = finished c" by simp
    then show ?thesis by blast
  qed
qed

lemma turns_reach_run: "\<exists>n. turns srv n (Ready p, w) = finished (run srv p w)"
proof (induction p arbitrary: w)
  case (Return x)
  have "turns srv 0 (Ready (Return x), w) = finished (run srv (Return x) w)" by simp
  then show ?case by blast
next
  case (Throw e)
  have "turns srv 0 (Ready (Throw e), w) = finished (run srv (Throw e) w)" by simp
  then show ?case by blast
next
  case (GetItem key f)
  from GetItem [of "f (storage w key)" w] turns_resume
  obtain m where "turns srv m (resume (f (storage w key)) w) = finished (run srv (f (storage w key)) w)"
    by (metis rangeI)
  then have "turns srv (Suc m) (Ready (GetItem key f), w) = finished (run srv (GetItem key f) w)"
    by simp
  then show ?case by blast
next
  case (SetItem key v p)
  let ?w = "w\<lparr>storage := (storage w)(key \<mapsto> v)\<rparr>"
  from SetItem [of ?w] turns_resume
  obtain m where "turns srv m (resume p ?w) = finished (run srv p ?w)" by metis
  then have "turns srv (Suc m) (Ready (SetItem key v p), w) = finished (run srv (SetItem key v p) w)"
    by simp
  then show ?case by blast
next
  case (RemoveItem key p)
  let ?w = "w\<lparr>storage := (storage w)(key := None)\<rparr>"
  from RemoveItem [of ?w] turns_resume
  obtain m where "turns srv m (resume p ?w) = finished (run srv p ?w)" by metis
  then have "turns srv (Suc m) (Ready (RemoveItem key p), w) = finished (run srv (RemoveItem key p) w)"
    by simp
  then show ?case by blast
next
  case (Http c f)
  let ?w = "w\<lparr>net := net w @ [c]\<rparr>"
  from Http [of "f (srv (net w) c)" ?w] turns_resume
  obtain m where "turns srv m (resume (f (srv (net w) c)) ?w) = finished (run srv (f (srv (net w) c)) ?w)"
    by (metis rangeI)
  then have "turns srv (Suc (Suc m)) (Ready (Http c f), w) = finished (run srv (Http c f) w)"
    by simp
  then show ?case by blast
next
  case (SetUser u p)
  let ?w = "w\<lparr>user := u\<rparr>"
  from SetUser [of ?w] turns_resume
  obtain m where "turns srv m (resume p ?w) = finished (run srv p ?w)" by metis
  moreover have "resume (SetUser u p) w = resume p ?w" by (simp add: resume_def)
  ultimately have "turns srv (Suc m) (Ready (SetUser u p), w) = finished (run srv (SetUser u p) w)"
    by simp
  then show ?case by blast
next
  case (SetIsLoading b p)
  let ?w = "w\<lparr>isLoading := b\<rparr>"
  from SetIsLoading [of ?w] turns_resume
  obtain m where "turns srv m (resume p ?w) = finished (run srv p ?w)" by metis
  moreover have "resume (SetIsLoading b p) w = resume p ?w" by (simp add: resume_def)
  ultimately have "turns srv (Suc m) (Ready (SetIsLoading b p), w) = finished (run srv (SetIsLoading b p) w)"
    by simp
  then show ?case by blast
next
  case (SetIsSignedIn b p)
  let ?w = "w\<lparr>isSignedIn := b\<rparr>"
  from SetIsSignedIn [of ?w] turns_resume
  obtain m where "turns srv m (resume p ?w) = finished (run srv p ?w)" by metis
  moreover have "resume (SetIsSignedIn b p) w = resume p ?w" by (simp add: resume_def)
  ultimately have "turns srv (Suc m) (Ready (SetIsSignedIn b p), w) = finished (run srv (SetIsSignedIn b p) w)"
    by simp
  then show ?case by blast
qed

section \<open>The response interceptor, case by case\<close>

lemma interceptor_other_error:
  "\<not> is401 error \<Longrightarrow> run srv (response_interceptor error) w = (Rejected error, w)"
  by (simp add: response_interceptor_def)

lemma interceptor_no_refresh_token:
  assumes "is401 error" and "\<not> truthy (storage w ''refreshToken'')"
  shows "run srv (response_interceptor error) w =
     (Rejected error, w\<lparr>storage := (storage w)(''token'' := None, ''refreshToken'' := None)\<rparr>)"
  using assms by (simp add: response_interceptor_def adopt_def run_bind)

lemma interceptor_refresh_rejected:
  assumes "is401 error" and "truthy (storage w ''refreshToken'')"
    and "settled (refresh_config (the (storage w ''refreshToken'')))
           (srv (net w) (refresh_config (the (storage w ''refreshToken'')))) = Rejected e"
  shows "run srv (response_interceptor error) w =
     (Rejected error,
      w\<lparr>net := net w @ [refresh_config (the (storage w ''refreshToken''))],
        storage := (storage w)(''token'' := None, ''refreshToken'' := None)\<rparr>)"
  using assms
  by (simp add: response_interceptor_def adopt_def run_bind run_try_catch run_axios)

lemma interceptor_refresh_resolved:
  assumes "is401 error" and "truthy (storage w ''refreshToken'')"
    and "settled (refresh_config (the (storage w ''refreshToken'')))
           (srv (net w) (refresh_config (the (storage w ''refreshToken'')))) = Resolved r"
  shows "run srv (response_interceptor error) w =
     run srv (axios ((error_config error)
                \<lparr>Authorization := Some (''Bearer '' @ access_token (data r))\<rparr>))
       (w\<lparr>net := net w @ [refresh_config (the (storage w ''refreshToken''))],
          storage := (storage w)(''token'' \<mapsto> access_token (data r),
                                 ''refreshToken'' \<mapsto> refresh_token (data r))\<rparr>)"
  using assms
  by (simp add: response_interceptor_def adopt_def run_bind run_try_catch run_axios)

section \<open>A refresh that is needed while no refresh token is stored\<close>

text \<open>
  Claim C4. A request was answered 401 and AsyncStorage holds no usable refresh token
  (none, or the empty string). The interceptor removes both keys and rejects with the
  error of the request, which carries the 401 response. The log of requests is as it
  was: nothing reaches the transport. Taken turn by turn, the handler is finished after
  its three storage operations.
\<close>

theorem no_refresh_token_rejects_without_network:
  assumes "is401 error" and "\<not> truthy (storage w ''refreshToken'')"
  shows "run srv (response_interceptor error) w =
           (Rejected error,
            w\<lparr>storage := (storage w)(''token'' := None, ''refreshToken'' := None)\<rparr>)
       \<and> AuthExpired (fst (run srv (response_interceptor error) w))
       \<and> net (snd (run srv (response_interceptor error) w)) = net w
       \<and> result (fst (turns srv 3 (spawn (response_interceptor error) w))) = Some (Rejected error)
       \<and> net (snd (turns srv 3 (spawn (response_interceptor error) w))) = net w"
  using assms
  by (simp add: interceptor_no_refresh_token)
     (simp add: response_interceptor_def adopt_def spawn_def resume_def eval_nat_numeral)

theorem no_refresh_token_rejects_without_network_witness:
  "is401 e401 \<and> \<not> truthy (storage fresh ''refreshToken'')
   \<and> run (always NoResponse) (response_interceptor e401) fresh = (Rejected e401, fresh)
   \<and> net (snd (turns (always NoResponse) 3 (spawn (response_interceptor e401) fresh))) = []"
  using no_refresh_token_rejects_without_network [of e401 fresh "always NoResponse"]
  by (simp add: e401_def fresh_def is401_def)

section \<open>Requests through \<^verbatim>\<open>api\<close>\<close>

lemma run_request_interceptor:
  "run srv (request_interceptor c) w = (Resolved (with_token w c), w)"
  by (simp add: request_interceptor_def with_token_def)

lemma run_api:
  "run srv (api c) w =
     (case settled (with_token w c) (srv (net w) (with_token w c)) of
        Resolved r \<Rightarrow> (Resolved r, w\<lparr>net := net w @ [with_token w c]\<rparr>)
      | Rejected e \<Rightarrow>
          run srv (response_interceptor e) (w\<lparr>net := net w @ [with_token w c]\<rparr>))"
  by (simp add: api_def run_bind run_try_catch run_request_interceptor run_axios
      split: outcome.splits)

lemma url_with_token: "url (with_token w c) = url c"
  by (simp add: with_token_def)

lemma settled_Rejected_config: "settled c x = Rejected e \<Longrightarrow> error_config e = c"
  by (cases x) (auto split: if_splits)

text \<open>Whatever the server does, the interceptor hands at most two requests to the
  transport (the refresh and the replay), touches nothing but storage and the log, and a
  request through \<^verbatim>\<open>api\<close> therefore causes at most three.\<close>

lemma interceptor_frame:
  "\<exists>reqs st. snd (run srv (response_interceptor error) w) =
       w\<lparr>net := net w @ reqs, storage := st\<rparr>
     \<and> length reqs \<le> 2
     \<and> (\<forall>q \<in> set reqs. url q = url (error_config error)
            \<or> url q = API_URL @ ''/auth/refresh'')"
proof (cases "is401 error")
  case False
  then have "snd (run srv (response_interceptor error) w) =
      w\<lparr>net := net w @ [], storage := storage w\<rparr>"
    by (simp add: interceptor_other_error)
  then show ?thesis by (metis list.size(3) zero_le empty_iff list.set(1))
next
  case True
  show ?thesis
  proof (cases "truthy (storage w ''refreshToken'')")
    case False
    with True have "snd (run srv (response_interceptor error) w) =
        w\<lparr>net := net w @ [],
          storage := (storage w)(''token'' := None, ''refreshToken'' := None)\<rparr>"
      by (simp add: interceptor_no_refresh_token)
    then show ?thesis by (metis list.size(3) zero_le empty_iff list.set(1))
  next
    case rt: True
    let ?r = "refresh_config (the (storage w ''refreshToken''))"
    show ?thesis
    proof (cases "settled ?r (srv (net w) ?r)")
      case (Resolved r)
      let ?p = "(error_config error)
                  \<lparr>Authorization := Some (''Bearer '' @ access_token (data r))\<rparr>"
      have "snd (run srv (response_interceptor error) w) =
          w\<lparr>net := net w @ [?r, ?p],
            storage := (storage w)(''token'' \<mapsto> access_token (data r),
                                   ''refreshToken'' \<mapsto> refresh_token (data r))\<rparr>"
        by (simp add: interceptor_refresh_resolved [where srv = srv, OF True rt Resolved]
            run_axios)
      moreover have "length [?r, ?p] \<le> 2" by simp
      moreover have "\<forall>q \<in> set [?r, ?p]. url q = url (error_config error)
          \<or> url q = API_URL @ ''/auth/refresh''"
        by (simp add: refresh_config_def)
      ultimately show ?thesis by blast
    next
      case (Rejected e)
      have "snd (run srv (response_interceptor error) w) =
          w\<lparr>net := net w @ [?r],
            storage := (storage w)(''token'' := None, ''refreshToken'' := None)\<rparr>"
        by (simp add: interceptor_refresh_rejected [where srv = srv, OF True rt Rejected])
      moreover have "length [?r] \<le> 2" by simp
      moreover have "\<forall>q \<in> set [?r]. url q = url (error_config error)
          \<or> url q = API_URL @ ''/auth/refresh''"
        by (simp add: refresh_config_def)
      ultimately show ?thesis by blast
    qed
  qed
qed

lemma api_frame:
  "\<exists>reqs st. snd (run srv (api c) w) =
       w\<lparr>net := net w @ with_token w c # reqs, storage := st\<rparr>
     \<and> length reqs \<le> 2
     \<and> (\<forall>q \<in> set reqs. url q = url c \<or> url q = API_URL @ ''/auth/refresh'')"
proof (cases "settled (with_token w c) (srv (net w) (with_token w c))")
  case (Resolved r)
  then have "snd (run srv (api c) w) =
      w\<lparr>net := net w @ with_token w c # [], storage := storage w\<rparr>"
    by (simp add: run_api)
  then show ?thesis by (metis list.size(3) zero_le empty_iff list.set(1))
next
  case (Rejected e)
  let ?w = "w\<lparr>net := net w @ [with_token w c]\<rparr>"
  from interceptor_frame [of srv e ?w]
  obtain reqs st where *:
    "snd (run srv (response_interceptor e) ?w) = ?w\<lparr>net := net ?w @ reqs, storage := st\<rparr>"
    "length reqs \<le> 2"
    "\<forall>q \<in> set reqs. url q = url (error_config e) \<or> url q = API_URL @ ''/auth/refresh''"
    by blast
  have "snd (run srv (api c) w) =
      w\<lparr>net := net w @ with_token w c # reqs, storage := st\<rparr>"
    using Rejected *(1) by (simp add: run_api)
  moreover have "\<forall>q \<in> set reqs. url q = url c \<or> url q = API_URL @ ''/auth/refresh''"
    using *(3) settled_Rejected_config [OF Rejected] by (simp add: url_with_token)
  ultimately show ?thesis using *(2) by blast
qed

section \<open>A refresh that fails\<close>

text \<open>
  Claim C2, as the code has it. A request was answered 401 and the refresh fails: no
  usable refresh token is stored, or the refresh request is rejected (a status outside
  2xx, or no response). Then both keys are removed from AsyncStorage and the request is
  rejected with its own 401 error; it is not replayed, the only request that may have
  reached the transport is the refresh. The interceptor has no access to the React
  state: \<^verbatim>\<open>isSignedIn\<close> and \<^verbatim>\<open>user\<close> are what they were.
\<close>

theorem refresh_failure_clears_store_and_rejects:
  assumes "is401 error"
    and "truthy (storage w ''refreshToken'') \<longrightarrow>
           settled (refresh_config (the (storage w ''refreshToken'')))
             (srv (net w) (refresh_config (the (storage w ''refreshToken'')))) = Rejected e"
  shows "fst (run srv (response_interceptor error) w) = Rejected error
       \<and> AuthExpired (fst (run srv (response_interceptor error) w))
       \<and> tokens_cleared (snd (run srv (response_interceptor error) w))
       \<and> net (snd (run srv (response_interceptor error) w)) =
           (if truthy (storage w ''refreshToken'')
            then net w @ [refresh_config (the (storage w ''refreshToken''))] else net w)
       \<and> isSignedIn (snd (run srv (response_interceptor error) w)) = isSignedIn w
       \<and> user (snd (run srv (response_interceptor error) w)) = user w"
proof (cases "truthy (storage w ''refreshToken'')")
  case True
  with assms show ?thesis
    by (simp add: interceptor_refresh_rejected tokens_cleared_def)
next
  case False
  with assms show ?thesis
    by (simp add: interceptor_no_refresh_token tokens_cleared_def)
qed

theorem refresh_failure_clears_store_and_rejects_witness:
  "is401 e401
   \<and> fst (run (always (Reply 401 (token_body [] []))) (response_interceptor e401)
        (signed_in ''A1'' ''R1'')) = Rejected e401
   \<and> tokens_cleared (snd (run (always (Reply 401 (token_body [] [])))
        (response_interceptor e401) (signed_in ''A1'' ''R1'')))
   \<and> net (snd (run (always (Reply 401 (token_body [] []))) (response_interceptor e401)
        (signed_in ''A1'' ''R1''))) = [refresh_config ''R1'']"
  using refresh_failure_clears_store_and_rejects
    [of e401 "signed_in ''A1'' ''R1''" "always (Reply 401 (token_body [] []))"
      "HttpError (refresh_config ''R1'') \<lparr>status = 401, data = token_body [] []\<rparr>"]
  by (simp add: e401_def is401_def signed_in_def always_def validateStatus_def)

text \<open>
  The claim as written also moves the session to Unauthenticated. Scenario 3 of the
  specification, run on the code: a signed-in user fetches the profile, the server
  answers 401 to the request and to the refresh. The caller gets the 401 error and the
  store is cleared, but \<^verbatim>\<open>isSignedIn\<close> is still true.
\<close>

theorem refresh_failure_leaves_session_signed_in:
  "fst (run (always (Reply 401 (token_body [] []))) (api_get ''/users/me'')
        (signed_in ''A1'' ''R1'')) = Rejected e401
   \<and> tokens_cleared (snd (run (always (Reply 401 (token_body [] []))) (api_get ''/users/me'')
        (signed_in ''A1'' ''R1'')))
   \<and> isSignedIn (snd (run (always (Reply 401 (token_body [] []))) (api_get ''/users/me'')
        (signed_in ''A1'' ''R1'')))"
proof -
  have a: "with_token (signed_in ''A1'' ''R1'') (profile_config None) =
      profile_config (Some ''Bearer A1'')"
    by (simp add: with_token_def signed_in_def profile_config_def)
  have b: "is401 e401" by (simp add: e401_def is401_def)
  have c: "run (always (Reply 401 (token_body [] []))) (api_get ''/users/me'')
        (signed_in ''A1'' ''R1'') =
      (Rejected e401, (signed_in ''A1'' ''R1'')
         \<lparr>net := [profile_config (Some ''Bearer A1''), refresh_config ''R1''],
          storage := Map.empty\<rparr>)"
    unfolding api_get_def profile_config_def [symmetric]
    apply (simp add: run_api a always_def validateStatus_def e401_def [symmetric])
    apply (subst interceptor_refresh_rejected [where e = "HttpError (refresh_config ''R1'')
        \<lparr>status = 401, data = token_body [] []\<rparr>"])
       apply (simp_all add: b signed_in_def validateStatus_def)
    done
  show ?thesis by (simp add: c tokens_cleared_def) (simp add: signed_in_def)
qed

section \<open>A 401 on the replay\<close>

text \<open>
  Claim C6. The replay goes through the global \<^verbatim>\<open>axios\<close>, which has no interceptors.
  When the refresh succeeded and the replayed request is answered 401 again, the caller
  gets that 401 rejection, and the transport has seen exactly the refresh and the one
  replay. For every server, world and request, a request through \<^verbatim>\<open>api\<close> reaches the
  transport at most three times in all: itself, one refresh, one replay.
\<close>

theorem replay_401_is_surfaced_without_second_refresh:
  assumes "is401 error" and "truthy (storage w ''refreshToken'')"
    and "refresh = refresh_config (the (storage w ''refreshToken''))"
    and "srv (net w) refresh = Reply st d" and "validateStatus st"
    and "replay = (error_config error)\<lparr>Authorization := Some (''Bearer '' @ access_token d)\<rparr>"
    and "srv (net w @ [refresh]) replay = Reply 401 d'"
  shows "run srv (response_interceptor error) w =
           (Rejected (HttpError replay \<lparr>status = 401, data = d'\<rparr>),
            w\<lparr>net := net w @ [refresh, replay],
              storage := (storage w)(''token'' \<mapsto> access_token d,
                                     ''refreshToken'' \<mapsto> refresh_token d)\<rparr>)
       \<and> AuthExpired (fst (run srv (response_interceptor error) w))
       \<and> (\<exists>reqs st. snd (run srv' (api c') w') =
              w'\<lparr>net := net w' @ with_token w' c' # reqs, storage := st\<rparr>
            \<and> length reqs \<le> 2)"
proof -
  have "settled refresh (srv (net w) refresh) = Resolved \<lparr>status = st, data = d\<rparr>"
    using assms by simp
  from interceptor_refresh_resolved [where srv = srv, OF assms(1,2) this [unfolded assms(3)]]
  have "run srv (response_interceptor error) w =
           (Rejected (HttpError replay \<lparr>status = 401, data = d'\<rparr>),
            w\<lparr>net := net w @ [refresh, replay],
              storage := (storage w)(''token'' \<mapsto> access_token d,
                                     ''refreshToken'' \<mapsto> refresh_token d)\<rparr>)"
    using assms(3-) by (simp add: run_axios validateStatus_def)
  moreover have "\<exists>reqs st. snd (run srv' (api c') w') =
              w'\<lparr>net := net w' @ with_token w' c' # reqs, storage := st\<rparr>
            \<and> length reqs \<le> 2"
    using api_frame [of srv' c' w'] by blast
  ultimately show ?thesis
    by (simp add: is401_def)
qed

theorem replay_401_is_surfaced_without_second_refresh_witness:
  "is401 e401 \<and> truthy (storage (signed_in ''A1'' ''R1'') ''refreshToken'')
   \<and> run refresh_only (response_interceptor e401) (signed_in ''A1'' ''R1'') =
       (Rejected (HttpError (profile_config (Some ''Bearer A2''))
          \<lparr>status = 401, data = token_body [] []\<rparr>),
        (signed_in ''A1'' ''R1'')
          \<lparr>net := [refresh_config ''R1'', profile_config (Some ''Bearer A2'')],
           storage := [''token'' \<mapsto> ''A2'', ''refreshToken'' \<mapsto> ''R2'']\<rparr>)"
  using replay_401_is_surfaced_without_second_refresh
    [of e401 "signed_in ''A1'' ''R1''" "refresh_config ''R1''" refresh_only 200
      "token_body ''A2'' ''R2''" "profile_config (Some ''Bearer A2'')" "token_body [] []"]
  by (simp add: e401_def is401_def signed_in_def refresh_only_def validateStatus_def
      refresh_config_def profile_config_def token_body_def)

section \<open>Running the services and the context\<close>

lemma run_logout:
  "run srv logout w =
     (case run srv (api_post ''/auth/logout'' NoData) w of
        (r, w') \<Rightarrow> (map_outcome (\<lambda>_. ()) r, clear_tokens w'))"
  by (simp add: logout_def run_try_finally run_bind clear_tokens_def split: prod.splits outcome.splits)

lemma run_signOut:
  "run srv signOut w =
     (case run srv logout (w\<lparr>isLoading := True\<rparr>) of
        (Resolved u, w') \<Rightarrow> (Resolved (), w'\<lparr>user := None, isSignedIn := False, isLoading := False\<rparr>)
      | (Rejected e, w') \<Rightarrow> (Rejected e, w'\<lparr>isLoading := False\<rparr>))"
  by (simp add: signOut_def run_try_finally run_try_catch run_bind split: prod.splits outcome.splits)

lemma run_loadUserProfile:
  "run srv loadUserProfile w =
     (case run srv (api_get ''/users/me'') w of
        (Resolved r, w') \<Rightarrow> (Resolved (), w'\<lparr>user := Some (profile (data r))\<rparr>)
      | (Rejected e, w') \<Rightarrow> (Rejected e, w'))"
  by (simp add: loadUserProfile_def getUserProfile_def run_try_catch run_bind split: prod.splits outcome.splits)

lemma run_login:
  "run srv (login u p) w =
     (case settled (login_config u p) (srv (net w) (login_config u p)) of
        Resolved r \<Rightarrow> (Resolved (data r),
           w\<lparr>net := net w @ [login_config u p],
             storage := (storage w)(''token'' \<mapsto> access_token (data r),
                                    ''refreshToken'' \<mapsto> refresh_token (data r))\<rparr>)
      | Rejected e \<Rightarrow> (Rejected e, w\<lparr>net := net w @ [login_config u p]\<rparr>))"
  by (simp add: login_def run_bind run_axios split: outcome.splits)

lemma run_signIn:
  "run srv (signIn u p) w =
     (case run srv (login u p) (w\<lparr>isLoading := True\<rparr>) of
        (Rejected e, w1) \<Rightarrow> (Rejected e, w1\<lparr>isLoading := False\<rparr>)
      | (Resolved d, w1) \<Rightarrow>
          (case run srv loadUserProfile w1 of
             (Rejected e, w2) \<Rightarrow> (Rejected e, w2\<lparr>isLoading := False\<rparr>)
           | (Resolved x, w2) \<Rightarrow> (Resolved (), w2\<lparr>isSignedIn := True, isLoading := False\<rparr>)))"
  by (simp add: signIn_def run_try_finally run_try_catch run_bind split: prod.splits outcome.splits)

lemma run_register:
  "run srv (register ud) w =
     (case run srv (api_post ''/auth/register'' (Json ud)) w of
        (r, w') \<Rightarrow> (map_outcome data r, w'))"
  by (simp add: register_def run_bind split: prod.splits outcome.splits)

lemma run_signUp:
  "run srv (signUp ud) w =
     (case run srv (register ud) (w\<lparr>isLoading := True\<rparr>) of
        (Rejected e, w1) \<Rightarrow> (Rejected e, w1\<lparr>isLoading := False\<rparr>)
      | (Resolved d, w1) \<Rightarrow>
          (case run srv (signIn (username ud) (password ud)) w1 of
             (r, w2) \<Rightarrow> (r, w2\<lparr>isLoading := False\<rparr>)))"
  by (simp add: signUp_def run_try_finally run_try_catch run_bind split: prod.splits outcome.splits)

lemma clear_tokens_cleared: "tokens_cleared (clear_tokens w)"
  by (simp add: tokens_cleared_def clear_tokens_def)

section \<open>\<^verbatim>\<open>signOut\<close>\<close>

text \<open>
  Claim C5, as the code has it. For every server and every world, when \<^verbatim>\<open>signOut\<close>
  has run both tokens are gone from AsyncStorage and \<^verbatim>\<open>isLoading\<close> is false, whether
  the logout request succeeded or not. \<^verbatim>\<open>signOut\<close> settles as the logout request does:
  a failure of that request is rethrown to the caller. When \<^verbatim>\<open>signOut\<close> resolves, the
  session is Unauthenticated (\<^verbatim>\<open>isSignedIn\<close> false, \<^verbatim>\<open>user\<close> null).
\<close>

theorem signOut_clears_store:
  "tokens_cleared (snd (run srv signOut w))
   \<and> \<not> isLoading (snd (run srv signOut w))
   \<and> fst (run srv signOut w) =
       map_outcome (\<lambda>_. ()) (fst (run srv (api_post ''/auth/logout'' NoData) (w\<lparr>isLoading := True\<rparr>)))
   \<and> (fst (run srv signOut w) = Resolved () \<longrightarrow>
         \<not> isSignedIn (snd (run srv signOut w)) \<and> user (snd (run srv signOut w)) = None)"
proof -
  obtain r w' where a: "run srv (api_post ''/auth/logout'' NoData) (w\<lparr>isLoading := True\<rparr>) = (r, w')"
    by (cases "run srv (api_post ''/auth/logout'' NoData) (w\<lparr>isLoading := True\<rparr>)")
  show ?thesis
    by (cases r) (simp_all add: run_signOut run_logout a tokens_cleared_def clear_tokens_def)
qed

theorem signOut_clears_store_witness:
  "fst (run (always (Reply 200 (token_body [] []))) signOut (signed_in ''A1'' ''R1'')) =
      Resolved ()
   \<and> tokens_cleared (snd (run (always (Reply 200 (token_body [] []))) signOut
        (signed_in ''A1'' ''R1'')))
   \<and> \<not> isSignedIn (snd (run (always (Reply 200 (token_body [] []))) signOut
        (signed_in ''A1'' ''R1'')))
   \<and> user (snd (run (always (Reply 200 (token_body [] []))) signOut
        (signed_in ''A1'' ''R1''))) = None"
proof -
  have "fst (run (always (Reply 200 (token_body [] []))) (api_post ''/auth/logout'' NoData)
      ((signed_in ''A1'' ''R1'')\<lparr>isLoading := True\<rparr>)) =
      Resolved \<lparr>status = 200, data = token_body [] []\<rparr>"
    by (simp add: api_post_def run_api always_def validateStatus_def)
  then show ?thesis
    using signOut_clears_store [of "always (Reply 200 (token_body [] []))"
        "signed_in ''A1'' ''R1''"]
    by simp
qed

text \<open>
  The claim as written has the session end Unauthenticated also when the logout request
  fails, the failure being ignored. On the code, with a transport that gives no response:
  the store is cleared, but \<^verbatim>\<open>signOut\<close> rejects with the network error and
  \<^verbatim>\<open>isSignedIn\<close> is still true.
\<close>

theorem signOut_failure_is_rethrown:
  "fst (run (always NoResponse) signOut (signed_in ''A1'' ''R1'')) =
      Rejected (NetworkError (logout_config (Some ''Bearer A1'')))
   \<and> tokens_cleared (snd (run (always NoResponse) signOut (signed_in ''A1'' ''R1'')))
   \<and> isSignedIn (snd (run (always NoResponse) signOut (signed_in ''A1'' ''R1'')))"
proof -
  have a: "with_token ((signed_in ''A1'' ''R1'')\<lparr>isLoading := True\<rparr>) (logout_config None) = logout_config (Some ''Bearer A1'')"
    by (simp add: with_token_def signed_in_def logout_config_def)
  have b: "\<not> is401 (NetworkError c)" for c by (simp add: is401_def)
  have "run (always NoResponse) (api_post ''/auth/logout'' NoData) ((signed_in ''A1'' ''R1'')\<lparr>isLoading := True\<rparr>) =
     (Rejected (NetworkError (logout_config (Some ''Bearer A1''))),
      (signed_in ''A1'' ''R1'')\<lparr>isLoading := True, net := [logout_config (Some ''Bearer A1'')]\<rparr>)"
    unfolding api_post_def logout_config_def [symmetric]
    by (simp add: run_api a always_def interceptor_other_error b) (simp add: signed_in_def)
  then show ?thesis
    by (simp add: run_signOut run_logout) (simp add: clear_tokens_def signed_in_def tokens_cleared_def)
qed


lemma api_ui:
  "isSignedIn (snd (run srv (api c) w)) = isSignedIn w \<and> user (snd (run srv (api c) w)) = user w
   \<and> isLoading (snd (run srv (api c) w)) = isLoading w"
  using api_frame [of srv c w] by auto

lemma api_urls:
  "\<forall>q \<in> set (net (snd (run srv (api c) w))). q \<in> set (net w) \<or> url q = url c \<or> url q = API_URL @ ''/auth/refresh''"
  using api_frame [of srv c w] by (auto simp: url_with_token)

section \<open>\<^verbatim>\<open>signUp\<close>\<close>

text \<open>
  Claim C8. \<^verbatim>\<open>signUp\<close> runs \<^verbatim>\<open>register\<close> and then \<^verbatim>\<open>signIn\<close> with the username and
  the password of the same form data. If the registration rejects, \<^verbatim>\<open>signUp\<close> rejects
  with the same error, \<^verbatim>\<open>isSignedIn\<close> and \<^verbatim>\<open>user\<close> are what they were, \<^verbatim>\<open>isLoading\<close>
  is false, and no request to the login endpoint has reached the transport.
\<close>

theorem signUp_is_register_then_signIn:
  "run srv (signUp ud) w =
     (case run srv (register ud) (w\<lparr>isLoading := True\<rparr>) of
        (Rejected e, w1) \<Rightarrow> (Rejected e, w1\<lparr>isLoading := False\<rparr>)
      | (Resolved d, w1) \<Rightarrow>
          (case run srv (signIn (username ud) (password ud)) w1 of
             (r, w2) \<Rightarrow> (r, w2\<lparr>isLoading := False\<rparr>)))
   \<and> (fst (run srv (register ud) (w\<lparr>isLoading := True\<rparr>)) = Rejected e \<longrightarrow>
        fst (run srv (signUp ud) w) = Rejected e
        \<and> isSignedIn (snd (run srv (signUp ud) w)) = isSignedIn w
        \<and> user (snd (run srv (signUp ud) w)) = user w
        \<and> \<not> isLoading (snd (run srv (signUp ud) w))
        \<and> (\<forall>q \<in> set (net (snd (run srv (signUp ud) w))).
              q \<in> set (net w) \<or> url q \<noteq> API_URL @ ''/auth/token''))"
proof -
  let ?w = "w\<lparr>isLoading := True\<rparr>"
  obtain r w1 where a: "run srv (api_post ''/auth/register'' (Json ud)) ?w = (r, w1)"
    by (cases "run srv (api_post ''/auth/register'' (Json ud)) ?w")
  let ?c = "\<lparr>url = API_URL @ ''/auth/register'', http_method = POST, Authorization = None,
     Content_Type = ''application/json'', payload = Json ud\<rparr>"
  have a': "run srv (api ?c) ?w = (r, w1)"
    using a by (simp add: api_post_def)
  have ui: "isSignedIn w1 = isSignedIn w \<and> user w1 = user w"
    using api_ui [of srv ?c ?w] a' by simp
  have urls: "\<forall>q \<in> set (net w1). q \<in> set (net w) \<or> url q \<noteq> API_URL @ ''/auth/token''"
    using api_urls [of srv ?c ?w] a' by auto
  show ?thesis
    using ui urls by (cases r) (auto simp add: run_signUp run_register a)
qed

theorem signUp_is_register_then_signIn_witness:
  "fst (run (always NoResponse) (register alice) (fresh\<lparr>isLoading := True\<rparr>)) =
      Rejected (NetworkError (register_config None alice))
   \<and> fst (run (always NoResponse) (signUp alice) fresh) = Rejected (NetworkError (register_config None alice))
   \<and> \<not> isSignedIn (snd (run (always NoResponse) (signUp alice) fresh))
   \<and> net (snd (run (always NoResponse) (signUp alice) fresh)) = [register_config None alice]"
proof -
  have b: "\<not> is401 (NetworkError c)" for c by (simp add: is401_def)
  have a: "run (always NoResponse) (register alice) (fresh\<lparr>isLoading := True\<rparr>) =
      (Rejected (NetworkError (register_config None alice)), fresh\<lparr>isLoading := True, net := [register_config None alice]\<rparr>)"
    by (simp add: run_register api_post_def run_api with_token_def fresh_def always_def
        interceptor_other_error b register_config_def)
  show ?thesis
    using signUp_is_register_then_signIn [of "always NoResponse" alice fresh "NetworkError (register_config None alice)"]
    by (simp add: a) (simp add: fresh_def)
qed

section \<open>\<^verbatim>\<open>signIn\<close> when the profile fetch fails\<close>

text \<open>
  Claim C9, as the code has it. The login succeeded and stored its pair; the profile
  request then fails with anything but a 401 response (another status, or no response).
  \<^verbatim>\<open>signIn\<close> rejects with that error, \<^verbatim>\<open>isSignedIn\<close> is what it was, \<^verbatim>\<open>isLoading\<close> is
  false, and the pair written by login is still in AsyncStorage, so that
  \<^verbatim>\<open>isAuthenticated\<close>, which the bootstrap asks, answers true for a non-empty access
  token.
\<close>

theorem signIn_profile_failure_keeps_tokens:
  assumes "srv (net w) (login_config u p) = Reply st d" and "validateStatus st"
    and "pc = profile_config
           (if access_token d = [] then None else Some (''Bearer '' @ access_token d))"
    and "settled pc (srv (net w @ [login_config u p]) pc) = Rejected e"
    and "\<not> is401 e"
  shows "run srv (signIn u p) w =
           (Rejected e,
            w\<lparr>net := net w @ [login_config u p, pc],
              storage := (storage w)(''token'' \<mapsto> access_token d,
                                     ''refreshToken'' \<mapsto> refresh_token d),
              isLoading := False\<rparr>)
       \<and> isSignedIn (snd (run srv (signIn u p) w)) = isSignedIn w
       \<and> fst (run srv' isAuthenticated (snd (run srv (signIn u p) w))) =
           Resolved (access_token d \<noteq> [])"
proof -
  let ?w1 = "w\<lparr>isLoading := True, net := net w @ [login_config u p],
       storage := (storage w)(''token'' \<mapsto> access_token d,
                              ''refreshToken'' \<mapsto> refresh_token d)\<rparr>"
  have l: "run srv (login u p) (w\<lparr>isLoading := True\<rparr>) = (Resolved d, ?w1)"
    using assms(1,2) by (simp add: run_login)
  have wt: "with_token ?w1 (profile_config None) = pc"
    by (simp add: with_token_def assms(3) profile_config_def)
  have "run srv (api_get ''/users/me'') ?w1 = (Rejected e, ?w1\<lparr>net := net ?w1 @ [pc]\<rparr>)"
    unfolding api_get_def profile_config_def [symmetric]
    using assms(4,5) by (simp add: run_api wt interceptor_other_error)
  then have "run srv loadUserProfile ?w1 = (Rejected e, ?w1\<lparr>net := net ?w1 @ [pc]\<rparr>)"
    by (simp add: run_loadUserProfile)
  then have "run srv (signIn u p) w =
           (Rejected e,
            w\<lparr>net := net w @ [login_config u p, pc],
              storage := (storage w)(''token'' \<mapsto> access_token d,
                                     ''refreshToken'' \<mapsto> refresh_token d),
              isLoading := False\<rparr>)"
    by (simp add: run_signIn l)
  then show ?thesis by (simp add: isAuthenticated_def)
qed

theorem signIn_profile_failure_keeps_tokens_witness:
  "run login_then_silent (signIn ''alice'' ''Secret123'') fresh =
     (Rejected (NetworkError (profile_config (Some ''Bearer A1''))),
      fresh\<lparr>net := [login_config ''alice'' ''Secret123'', profile_config (Some ''Bearer A1'')],
            storage := [''token'' \<mapsto> ''A1'', ''refreshToken'' \<mapsto> ''R1'']\<rparr>)"
  using signIn_profile_failure_keeps_tokens
    [of login_then_silent fresh "''alice''" "''Secret123''" 200 "token_body ''A1'' ''R1''"
      "profile_config (Some ''Bearer A1'')"
      "NetworkError (profile_config (Some ''Bearer A1''))"]
  by (simp add: fresh_def validateStatus_def login_config_def profile_config_def
      token_body_def is401_def login_then_silent_def)

text \<open>
  The claim as written keeps the pair after every failure of the profile fetch. The
  profile request goes through \<^verbatim>\<open>api\<close>: when it is answered 401 and the refresh is
  answered 401 as well, the response interceptor removes the pair that login has just
  written, and \<^verbatim>\<open>isAuthenticated\<close> then answers false.
\<close>

theorem signIn_profile_401_clears_tokens:
  "fst (run login_only (signIn ''alice'' ''Secret123'') fresh) = Rejected e401
   \<and> tokens_cleared (snd (run login_only (signIn ''alice'' ''Secret123'') fresh))
   \<and> fst (run login_only isAuthenticated
        (snd (run login_only (signIn ''alice'' ''Secret123'') fresh))) = Resolved False"
proof -
  let ?w1 = "fresh\<lparr>isLoading := True, net := [login_config ''alice'' ''Secret123''],
       storage := [''token'' \<mapsto> ''A1'', ''refreshToken'' \<mapsto> ''R1'']\<rparr>"
  have l: "run login_only (login ''alice'' ''Secret123'') (fresh\<lparr>isLoading := True\<rparr>) =
      (Resolved (token_body ''A1'' ''R1''), ?w1)"
    by (simp add: run_login login_only_def login_config_def validateStatus_def fresh_def
        token_body_def)
  have wt: "with_token ?w1 (profile_config None) = profile_config (Some ''Bearer A1'')"
    by (simp add: with_token_def profile_config_def)
  let ?w2 = "?w1\<lparr>net := net ?w1 @ [profile_config (Some ''Bearer A1'')]\<rparr>"
  have s: "settled (profile_config (Some ''Bearer A1''))
      (login_only (net ?w1) (profile_config (Some ''Bearer A1''))) = Rejected e401"
    by (simp add: login_only_def profile_config_def validateStatus_def e401_def)
  have r: "run login_only (response_interceptor e401) ?w2 =
      (Rejected e401, ?w2\<lparr>net := net ?w2 @ [refresh_config ''R1''], storage := Map.empty\<rparr>)"
    apply (subst interceptor_refresh_rejected [where e = "HttpError (refresh_config ''R1'')
        \<lparr>status = 401, data = token_body [] []\<rparr>"])
       apply (simp_all add: is401_def e401_def login_only_def refresh_config_def
        validateStatus_def)
    done
  have "run login_only (api_get ''/users/me'') ?w1 =
      (Rejected e401, ?w2\<lparr>net := net ?w2 @ [refresh_config ''R1''], storage := Map.empty\<rparr>)"
    unfolding api_get_def profile_config_def [symmetric]
    by (simp only: run_api wt s outcome.case r)
  then have "run login_only (signIn ''alice'' ''Secret123'') fresh =
      (Rejected e401, ?w2\<lparr>net := net ?w2 @ [refresh_config ''R1''], storage := Map.empty,
         isLoading := False\<rparr>)"
    by (simp add: run_signIn l run_loadUserProfile)
  then show ?thesis by (simp add: tokens_cleared_def isAuthenticated_def)
qed

lemma api_401:
  assumes "srv (net w) (with_token w c) = Reply 401 d"
  shows "run srv (api c) w =
     run srv (response_interceptor (HttpError (with_token w c) \<lparr>status = 401, data = d\<rparr>))
       (w\<lparr>net := net w @ [with_token w c]\<rparr>)"
  using assms by (simp add: run_api validateStatus_def)

lemma interceptor_refresh_first:
  assumes "is401 error" and "truthy (storage w ''refreshToken'')"
  shows "\<exists>reqs. net (snd (run srv (response_interceptor error) w)) =
     net w @ refresh_config (the (storage w ''refreshToken'')) # reqs"
proof (cases "settled (refresh_config (the (storage w ''refreshToken'')))
           (srv (net w) (refresh_config (the (storage w ''refreshToken''))))")
  case (Resolved r)
  show ?thesis
    by (simp add: interceptor_refresh_resolved [where srv = srv, OF assms Resolved] run_axios)
next
  case (Rejected e)
  show ?thesis
    by (simp add: interceptor_refresh_rejected [where srv = srv, OF assms Rejected])
qed

section \<open>\<^verbatim>\<open>register\<close>\<close>

text \<open>
  Claim C10. \<^verbatim>\<open>register\<close> posts through \<^verbatim>\<open>api\<close>. With a non-empty access token \<open>t\<close>
  in AsyncStorage, the first request it hands to the transport is the registration with
  \<^verbatim>\<open>Authorization: Bearer t\<close>. When that request is answered 401, what follows is the
  response interceptor applied to the rejection, exactly as for the profile request of
  \<^verbatim>\<open>getUserProfile\<close>; with a usable refresh token stored, the next request on the wire
  is the refresh.
\<close>

theorem register_goes_through_authenticated_pipeline:
  assumes "storage w ''token'' = Some t" and "t \<noteq> []"
    and "rc = register_config (Some (''Bearer '' @ t)) ud"
    and "pc = profile_config (Some (''Bearer '' @ t))"
  shows "(\<exists>reqs st. snd (run srv (register ud) w) = w\<lparr>net := net w @ rc # reqs, storage := st\<rparr>)
       \<and> (srv (net w) rc = Reply 401 d \<longrightarrow>
            run srv (register ud) w =
              (case run srv (response_interceptor (HttpError rc \<lparr>status = 401, data = d\<rparr>))
                      (w\<lparr>net := net w @ [rc]\<rparr>) of
                 (r, w') \<Rightarrow> (map_outcome data r, w')))
       \<and> (srv (net w) pc = Reply 401 d \<longrightarrow>
            run srv getUserProfile w =
              (case run srv (response_interceptor (HttpError pc \<lparr>status = 401, data = d\<rparr>))
                      (w\<lparr>net := net w @ [pc]\<rparr>) of
                 (r, w') \<Rightarrow> (map_outcome data r, w')))
       \<and> (srv (net w) rc = Reply 401 d \<and> truthy (storage w ''refreshToken'') \<longrightarrow>
            (\<exists>reqs. net (snd (run srv (register ud) w)) =
               net w @ rc # refresh_config (the (storage w ''refreshToken'')) # reqs))"
proof -
  let ?c = "\<lparr>url = API_URL @ ''/auth/register'', http_method = POST, Authorization = None,
     Content_Type = ''application/json'', payload = Json ud\<rparr>"
  let ?g = "\<lparr>url = API_URL @ ''/users/me'', http_method = GET, Authorization = None,
     Content_Type = ''application/json'', payload = NoData\<rparr>"
  have wt: "with_token w ?c = rc"
    using assms by (simp add: with_token_def register_config_def)
  have wg: "with_token w ?g = pc"
    using assms by (simp add: with_token_def profile_config_def)
  have reg: "run srv (register ud) w = (case run srv (api ?c) w of (r, w') \<Rightarrow> (map_outcome data r, w'))"
    by (simp add: run_register api_post_def)
  have gup: "run srv getUserProfile w = (case run srv (api ?g) w of (r, w') \<Rightarrow> (map_outcome data r, w'))"
    by (simp add: getUserProfile_def run_bind api_get_def split: prod.splits outcome.splits)
  have 1: "\<exists>reqs st. snd (run srv (register ud) w) = w\<lparr>net := net w @ rc # reqs, storage := st\<rparr>"
  proof -
    from api_frame [of srv ?c w] obtain reqs st where
      "snd (run srv (api ?c) w) = w\<lparr>net := net w @ rc # reqs, storage := st\<rparr>"
      unfolding wt by blast
    then have "snd (run srv (register ud) w) = w\<lparr>net := net w @ rc # reqs, storage := st\<rparr>"
      by (auto simp: reg split: prod.splits)
    then show ?thesis by blast
  qed
  have 2: "run srv (register ud) w =
              (case run srv (response_interceptor (HttpError rc \<lparr>status = 401, data = d\<rparr>))
                      (w\<lparr>net := net w @ [rc]\<rparr>) of
                 (r, w') \<Rightarrow> (map_outcome data r, w'))" if "srv (net w) rc = Reply 401 d"
    using api_401 [of srv w ?c d] that by (simp add: reg wt)
  have 3: "run srv getUserProfile w =
              (case run srv (response_interceptor (HttpError pc \<lparr>status = 401, data = d\<rparr>))
                      (w\<lparr>net := net w @ [pc]\<rparr>) of
                 (r, w') \<Rightarrow> (map_outcome data r, w'))" if "srv (net w) pc = Reply 401 d"
    using api_401 [of srv w ?g d] that by (simp add: gup wg)
  have 4: "\<exists>reqs. net (snd (run srv (register ud) w)) =
               net w @ rc # refresh_config (the (storage w ''refreshToken'')) # reqs"
    if "srv (net w) rc = Reply 401 d" and "truthy (storage w ''refreshToken'')"
  proof -
    have "is401 (HttpError rc \<lparr>status = 401, data = d\<rparr>)" by (simp add: is401_def)
    from interceptor_refresh_first [of _ "w\<lparr>net := net w @ [rc]\<rparr>" srv, OF this] that(2)
    show ?thesis by (auto simp: 2 [OF that(1)] split: prod.splits)
  qed
  from 1 2 3 4 show ?thesis by blast
qed

theorem register_goes_through_authenticated_pipeline_witness:
  "storage (signed_in ''A1'' ''R1'') ''token'' = Some ''A1''
   \<and> refresh_only (net (signed_in ''A1'' ''R1'')) (register_config (Some (''Bearer '' @ ''A1'')) alice) =
       Reply 401 (token_body [] [])
   \<and> truthy (storage (signed_in ''A1'' ''R1'') ''refreshToken'')
   \<and> (\<exists>reqs. net (snd (run refresh_only (register alice) (signed_in ''A1'' ''R1''))) =
         net (signed_in ''A1'' ''R1'') @
         register_config (Some (''Bearer '' @ ''A1'')) alice # refresh_config ''R1'' # reqs)"
proof -
  have h1: "storage (signed_in ''A1'' ''R1'') ''token'' = Some ''A1''"
    by (simp add: signed_in_def)
  have h2: "''A1'' \<noteq> []" by simp
  have h3: "refresh_only (net (signed_in ''A1'' ''R1'')) (register_config (Some (''Bearer '' @ ''A1'')) alice) =
       Reply 401 (token_body [] [])"
    by (simp add: refresh_only_def register_config_def)
  have h4: "truthy (storage (signed_in ''A1'' ''R1'') ''refreshToken'')"
    by (simp add: signed_in_def)
  have h5: "the (storage (signed_in ''A1'' ''R1'') ''refreshToken'') = ''R1''"
    by (simp add: signed_in_def)
  from register_goes_through_authenticated_pipeline [OF h1 h2 refl refl, where srv = refresh_only and ud = alice
      and d = "token_body [] []"] h3 h4
  have "\<exists>reqs. net (snd (run refresh_only (register alice) (signed_in ''A1'' ''R1''))) =
         net (signed_in ''A1'' ''R1'') @
         register_config (Some (''Bearer '' @ ''A1'')) alice #
         refresh_config (the (storage (signed_in ''A1'' ''R1'') ''refreshToken'')) # reqs"
    by blast
  with h1 h3 h4 show ?thesis unfolding h5 by blast
qed

section \<open>Turn by turn\<close>

lemmas turn_defs = spawn_def resume_def eval_nat_numeral

lemmas eval_defs = eval_nat_numeral api_get_def api_def request_interceptor_def axios_def
  response_interceptor_def adopt_def resume_def signed_in_def validateStatus_def
  is401_def refresh_config_def token_body_def profile_config_def e401_def

lemma login_turns:
  assumes "srv (net w) (login_config u p) = Reply st d" and "validateStatus st"
  shows "turns srv 3 (spawn (login u p) w) =
           (Ready (SetItem ''refreshToken'' (refresh_token d) (Return d)),
            w\<lparr>net := net w @ [login_config u p],
              storage := (storage w)(''token'' \<mapsto> access_token d)\<rparr>)"
    and "turns srv 4 (spawn (login u p) w) =
           (Ready (Return d),
            w\<lparr>net := net w @ [login_config u p],
              storage := (storage w)(''token'' \<mapsto> access_token d,
                                     ''refreshToken'' \<mapsto> refresh_token d)\<rparr>)"
  using assms by (simp_all add: turn_defs login_def axios_def)

lemma refresh_turns:
  assumes "is401 error" and "truthy (storage w ''refreshToken'')"
    and "srv (net w) (refresh_config (the (storage w ''refreshToken''))) = Reply st d"
    and "validateStatus st"
  shows "snd (turns srv 4 (spawn (response_interceptor error) w)) =
            w\<lparr>net := net w @ [refresh_config (the (storage w ''refreshToken''))],
              storage := (storage w)(''token'' \<mapsto> access_token d)\<rparr>"
    and "result (fst (turns srv 4 (spawn (response_interceptor error) w))) = None"
    and "snd (turns srv 5 (spawn (response_interceptor error) w)) =
            w\<lparr>net := net w @ [refresh_config (the (storage w ''refreshToken''))],
              storage := (storage w)(''token'' \<mapsto> access_token d,
                                     ''refreshToken'' \<mapsto> refresh_token d)\<rparr>"
  using assms by (simp_all add: turn_defs response_interceptor_def adopt_def axios_def)

lemma clear_turns:
  assumes "is401 error" and "\<not> truthy (storage w ''refreshToken'')"
  shows "snd (turns srv 2 (spawn (response_interceptor error) w)) =
            w\<lparr>storage := (storage w)(''token'' := None)\<rparr>"
    and "result (fst (turns srv 2 (spawn (response_interceptor error) w))) = None"
    and "snd (turns srv 3 (spawn (response_interceptor error) w)) =
            w\<lparr>storage := (storage w)(''token'' := None, ''refreshToken'' := None)\<rparr>"
  using assms by (simp_all add: turn_defs response_interceptor_def adopt_def axios_def)

lemma refresh_failed_turns:
  assumes "is401 error" and "truthy (storage w ''refreshToken'')"
    and "settled (refresh_config (the (storage w ''refreshToken'')))
           (srv (net w) (refresh_config (the (storage w ''refreshToken'')))) = Rejected e"
  shows "snd (turns srv 4 (spawn (response_interceptor error) w)) =
            w\<lparr>net := net w @ [refresh_config (the (storage w ''refreshToken''))],
              storage := (storage w)(''token'' := None)\<rparr>"
    and "result (fst (turns srv 4 (spawn (response_interceptor error) w))) = None"
    and "snd (turns srv 5 (spawn (response_interceptor error) w)) =
            w\<lparr>net := net w @ [refresh_config (the (storage w ''refreshToken''))],
              storage := (storage w)(''token'' := None, ''refreshToken'' := None)\<rparr>"
proof -
  let ?c = "refresh_config (the (storage w ''refreshToken''))"
  have "turns srv 3 (spawn (response_interceptor error) w) =
     (Ready (RemoveItem ''token'' (RemoveItem ''refreshToken'' (Throw error))),
      w\<lparr>net := net w @ [?c]\<rparr>)"
  proof (cases "srv (net w) ?c")
    case NoResponse
    with assms(1,2) show ?thesis
      by (simp add: turn_defs response_interceptor_def adopt_def axios_def)
  next
    case (Reply st d)
    with assms(3) have "\<not> validateStatus st" by (simp split: if_splits)
    with Reply assms(1,2) show ?thesis
      by (simp add: turn_defs response_interceptor_def adopt_def axios_def)
  qed
  then have a: "turns srv 4 (spawn (response_interceptor error) w) =
      (Ready (RemoveItem ''refreshToken'' (Throw error)),
       w\<lparr>net := net w @ [?c], storage := (storage w)(''token'' := None)\<rparr>)"
    and b: "turns srv 5 (spawn (response_interceptor error) w) =
      (Ready (Throw error),
       w\<lparr>net := net w @ [?c], storage := (storage w)(''token'' := None, ''refreshToken'' := None)\<rparr>)"
    using turns_add [of srv 3 1] turns_add [of srv 3 2]
    by (simp_all add: resume_def eval_nat_numeral)
  show "snd (turns srv 4 (spawn (response_interceptor error) w)) =
            w\<lparr>net := net w @ [?c], storage := (storage w)(''token'' := None)\<rparr>"
    and "result (fst (turns srv 4 (spawn (response_interceptor error) w))) = None"
    and "snd (turns srv 5 (spawn (response_interceptor error) w)) =
            w\<lparr>net := net w @ [?c],
              storage := (storage w)(''token'' := None, ''refreshToken'' := None)\<rparr>"
    by (simp_all only: a b snd_conv fst_conv result.simps)
qed

lemma logout_turns_general:
  assumes "\<not> AuthExpired (settled (with_token w (logout_config None))
             (srv (net w) (with_token w (logout_config None))))"
  shows "snd (turns srv 4 (spawn logout w)) =
            w\<lparr>net := net w @ [with_token w (logout_config None)],
              storage := (storage w)(''token'' := None)\<rparr>
       \<and> result (fst (turns srv 4 (spawn logout w))) = None
       \<and> snd (turns srv 5 (spawn logout w)) =
            w\<lparr>net := net w @ [with_token w (logout_config None)],
               storage := (storage w)(''token'' := None, ''refreshToken'' := None)\<rparr>"
proof (cases "srv (net w) (with_token w (logout_config None))")
  case NoResponse
  then show ?thesis
    by (cases "truthy (storage w ''token'')";
        simp add: turn_defs logout_def api_post_def api_def request_interceptor_def
          axios_def with_token_def logout_config_def response_interceptor_def is401_def)
next
  case (Reply st d)
  show ?thesis
  proof (cases "validateStatus st")
    case True
    with Reply show ?thesis
      by (cases "truthy (storage w ''token'')";
          simp add: turn_defs logout_def api_post_def api_def request_interceptor_def
            axios_def with_token_def logout_config_def)
  next
    case False
    with assms Reply have "st \<noteq> 401" by (simp add: is401_def)
    with False Reply show ?thesis
      by (cases "truthy (storage w ''token'')";
          simp add: turn_defs logout_def api_post_def api_def request_interceptor_def
            axios_def with_token_def logout_config_def response_interceptor_def is401_def)
  qed
qed

lemma resume_setters:
  "resume (SetUser u p) w = resume p (w\<lparr>user := u\<rparr>)"
  "resume (SetIsLoading b p) w = resume p (w\<lparr>isLoading := b\<rparr>)"
  "resume (SetIsSignedIn b p) w = resume p (w\<lparr>isSignedIn := b\<rparr>)"
  by (simp_all add: resume_def)

lemma turns_Suc_start: "turns srv (Suc n) c = turns srv n (step srv (fst c) (snd c))"
  by simp

lemma reach_finally:
  "\<exists>n. turns srv n (resume (try_finally p q) w) =
     resume (bind q (\<lambda>_. complete (fst (run srv p w)))) (snd (run srv p w))"
proof (induction p arbitrary: w)
  case (Return x)
  have "turns srv 0 (resume (try_finally (Return x) q) w) =
     resume (bind q (\<lambda>_. complete (fst (run srv (Return x) w)))) (snd (run srv (Return x) w))"
    by simp
  then show ?case by blast
next
  case (Throw e)
  have "turns srv 0 (resume (try_finally (Throw e) q) w) =
     resume (bind q (\<lambda>_. complete (fst (run srv (Throw e) w)))) (snd (run srv (Throw e) w))"
    by simp
  then show ?case by blast
next
  case (GetItem key f)
  from GetItem [of "f (storage w key)" w]
  obtain n where "turns srv n (resume (try_finally (f (storage w key)) q) w) =
     resume (bind q (\<lambda>_. complete (fst (run srv (f (storage w key)) w))))
       (snd (run srv (f (storage w key)) w))"
    by blast
  then have "turns srv (Suc n) (resume (try_finally (GetItem key f) q) w) =
     resume (bind q (\<lambda>_. complete (fst (run srv (GetItem key f) w))))
       (snd (run srv (GetItem key f) w))"
    by (simp add: resume_def)
  then show ?case by blast
next
  case (SetItem key v p)
  from SetItem [of "w\<lparr>storage := (storage w)(key \<mapsto> v)\<rparr>"]
  obtain n where "turns srv n (resume (try_finally p q) (w\<lparr>storage := (storage w)(key \<mapsto> v)\<rparr>)) =
     resume (bind q (\<lambda>_. complete (fst (run srv p (w\<lparr>storage := (storage w)(key \<mapsto> v)\<rparr>)))))
       (snd (run srv p (w\<lparr>storage := (storage w)(key \<mapsto> v)\<rparr>)))"
    by blast
  then have "turns srv (Suc n) (resume (try_finally (SetItem key v p) q) w) =
     resume (bind q (\<lambda>_. complete (fst (run srv (SetItem key v p) w))))
       (snd (run srv (SetItem key v p) w))"
    by (simp add: resume_def)
  then show ?case by blast
next
  case (RemoveItem key p)
  from RemoveItem [of "w\<lparr>storage := (storage w)(key := None)\<rparr>"]
  obtain n where "turns srv n (resume (try_finally p q) (w\<lparr>storage := (storage w)(key := None)\<rparr>)) =
     resume (bind q (\<lambda>_. complete (fst (run srv p (w\<lparr>storage := (storage w)(key := None)\<rparr>)))))
       (snd (run srv p (w\<lparr>storage := (storage w)(key := None)\<rparr>)))"
    by blast
  then have "turns srv (Suc n) (resume (try_finally (RemoveItem key p) q) w) =
     resume (bind q (\<lambda>_. complete (fst (run srv (RemoveItem key p) w))))
       (snd (run srv (RemoveItem key p) w))"
    by (simp add: resume_def)
  then show ?case by blast
next
  case (Http c f)
  from Http [of "f (srv (net w) c)" "w\<lparr>net := net w @ [c]\<rparr>"]
  obtain n where "turns srv n (resume (try_finally (f (srv (net w) c)) q) (w\<lparr>net := net w @ [c]\<rparr>)) =
     resume (bind q (\<lambda>_. complete (fst (run srv (f (srv (net w) c)) (w\<lparr>net := net w @ [c]\<rparr>)))))
       (snd (run srv (f (srv (net w) c)) (w\<lparr>net := net w @ [c]\<rparr>)))"
    by blast
  then have "turns srv (Suc (Suc n)) (resume (try_finally (Http c f) q) w) =
     resume (bind q (\<lambda>_. complete (fst (run srv (Http c f) w))))
       (snd (run srv (Http c f) w))"
    by (simp add: resume_def)
  then show ?case by blast
next
  case (SetUser u p)
  from SetUser [of "w\<lparr>user := u\<rparr>"] show ?case
    by (simp add: resume_setters)
next
  case (SetIsLoading b p)
  from SetIsLoading [of "w\<lparr>isLoading := b\<rparr>"] show ?case
    by (simp add: resume_setters)
next
  case (SetIsSignedIn b p)
  from SetIsSignedIn [of "w\<lparr>isSignedIn := b\<rparr>"] show ?case
    by (simp add: resume_setters)
qed

lemma logout_reaches_clear:
  "\<exists>n. turns srv n (spawn logout w) =
     (Ready (RemoveItem ''token'' (RemoveItem ''refreshToken''
        (complete (map_outcome (\<lambda>_. ()) (fst (run srv (api_post ''/auth/logout'' NoData) w)))))),
      snd (run srv (api_post ''/auth/logout'' NoData) w))"
proof -
  obtain r w' where a: "run srv (api_post ''/auth/logout'' NoData) w = (r, w')"
    by (cases "run srv (api_post ''/auth/logout'' NoData) w")
  from reach_finally [of srv "bind (api_post ''/auth/logout'' NoData) (\<lambda>_. Return ())"
      "RemoveItem ''token'' (RemoveItem ''refreshToken'' (Return ()))" w]
  show ?thesis
    by (cases r) (simp_all add: spawn_def logout_def run_bind a resume_def)
qed

lemma logout_clears_in_two_turns:
  "\<exists>n. snd (turns srv n (spawn logout w)) = snd (run srv (api_post ''/auth/logout'' NoData) w)
     \<and> result (fst (turns srv n (spawn logout w))) = None
     \<and> snd (turns srv (Suc n) (spawn logout w)) =
         (snd (run srv (api_post ''/auth/logout'' NoData) w))
           \<lparr>storage := (storage (snd (run srv (api_post ''/auth/logout'' NoData) w)))
              (''token'' := None)\<rparr>
     \<and> result (fst (turns srv (Suc n) (spawn logout w))) = None
     \<and> snd (turns srv (Suc (Suc n)) (spawn logout w)) =
         (snd (run srv (api_post ''/auth/logout'' NoData) w))
           \<lparr>storage := (storage (snd (run srv (api_post ''/auth/logout'' NoData) w)))
              (''token'' := None, ''refreshToken'' := None)\<rparr>
     \<and> result (fst (turns srv (Suc (Suc n)) (spawn logout w))) \<noteq> None"
proof -
  from logout_reaches_clear [of srv w] obtain n where
    n: "turns srv n (spawn logout w) =
     (Ready (RemoveItem ''token'' (RemoveItem ''refreshToken''
        (complete (map_outcome (\<lambda>_. ()) (fst (run srv (api_post ''/auth/logout'' NoData) w)))))),
      snd (run srv (api_post ''/auth/logout'' NoData) w))"
    by blast
  have 1: "turns srv (Suc n) c = turns srv 1 (turns srv n c)" for c :: "unit task \<times> world"
    using turns_add [of srv n 1 c] by simp
  have 2: "turns srv (Suc (Suc n)) c = turns srv 2 (turns srv n c)" for c :: "unit task \<times> world"
    using turns_add [of srv n 2 c] by simp
  show ?thesis
    apply (rule exI [of _ n])
    unfolding 1 2 n
    by (cases "fst (run srv (api_post ''/auth/logout'' NoData) w)";
        simp add: resume_def eval_nat_numeral)
qed

section \<open>Writing and clearing the token pair\<close>

text \<open>
  Claim C7, as the code has it. No write of the pair is atomic. Login and a successful
  refresh each await two separate \<^verbatim>\<open>setItem\<close> calls, the access token first and the
  refresh token second; the two failure paths of the interceptor (no refresh token, refresh
  rejected) and logout each await two separate \<^verbatim>\<open>removeItem\<close> calls, the access token
  first. For logout this holds whatever becomes of its request: once the request through
  \<^verbatim>\<open>api\<close> has ended, with or without a refresh and a replay, the two removals are the
  last two turns (turns 4 and 5 when the request is not answered 401). In between the task is
  suspended and not finished, and the store holds the new access token next to the old
  entry for the refresh token (or no access token next to the refresh token). After the
  second operation both are written, or both are gone.
\<close>

theorem token_pair_is_written_access_token_first:
  "(srv (net w) (login_config u p) = Reply st d \<and> validateStatus st \<longrightarrow>
      snd (turns srv 3 (spawn (login u p) w)) =
        w\<lparr>net := net w @ [login_config u p],
          storage := (storage w)(''token'' \<mapsto> access_token d)\<rparr>
      \<and> result (fst (turns srv 3 (spawn (login u p) w))) = None
      \<and> snd (turns srv 4 (spawn (login u p) w)) =
        w\<lparr>net := net w @ [login_config u p],
          storage := (storage w)(''token'' \<mapsto> access_token d,
                                 ''refreshToken'' \<mapsto> refresh_token d)\<rparr>)
   \<and> (is401 error \<and> truthy (storage w ''refreshToken'')
      \<and> srv (net w) (refresh_config (the (storage w ''refreshToken''))) = Reply st d
      \<and> validateStatus st \<longrightarrow>
      snd (turns srv 4 (spawn (response_interceptor error) w)) =
        w\<lparr>net := net w @ [refresh_config (the (storage w ''refreshToken''))],
          storage := (storage w)(''token'' \<mapsto> access_token d)\<rparr>
      \<and> result (fst (turns srv 4 (spawn (response_interceptor error) w))) = None
      \<and> snd (turns srv 5 (spawn (response_interceptor error) w)) =
        w\<lparr>net := net w @ [refresh_config (the (storage w ''refreshToken''))],
          storage := (storage w)(''token'' \<mapsto> access_token d,
                                 ''refreshToken'' \<mapsto> refresh_token d)\<rparr>)
   \<and> (is401 error \<and> \<not> truthy (storage w ''refreshToken'') \<longrightarrow>
      snd (turns srv 2 (spawn (response_interceptor error) w)) =
        w\<lparr>storage := (storage w)(''token'' := None)\<rparr>
      \<and> result (fst (turns srv 2 (spawn (response_interceptor error) w))) = None
      \<and> snd (turns srv 3 (spawn (response_interceptor error) w)) =
        w\<lparr>storage := (storage w)(''token'' := None, ''refreshToken'' := None)\<rparr>)
   \<and> (is401 error \<and> truthy (storage w ''refreshToken'')
      \<and> settled (refresh_config (the (storage w ''refreshToken'')))
           (srv (net w) (refresh_config (the (storage w ''refreshToken'')))) = Rejected e \<longrightarrow>
      snd (turns srv 4 (spawn (response_interceptor error) w)) =
        w\<lparr>net := net w @ [refresh_config (the (storage w ''refreshToken''))],
          storage := (storage w)(''token'' := None)\<rparr>
      \<and> result (fst (turns srv 4 (spawn (response_interceptor error) w))) = None
      \<and> snd (turns srv 5 (spawn (response_interceptor error) w)) =
        w\<lparr>net := net w @ [refresh_config (the (storage w ''refreshToken''))],
          storage := (storage w)(''token'' := None, ''refreshToken'' := None)\<rparr>)
   \<and> (\<not> AuthExpired (settled (with_token w (logout_config None))
             (srv (net w) (with_token w (logout_config None)))) \<longrightarrow>
      snd (turns srv 4 (spawn logout w)) =
        w\<lparr>net := net w @ [with_token w (logout_config None)],
          storage := (storage w)(''token'' := None)\<rparr>
      \<and> result (fst (turns srv 4 (spawn logout w))) = None
      \<and> snd (turns srv 5 (spawn logout w)) =
        w\<lparr>net := net w @ [with_token w (logout_config None)],
          storage := (storage w)(''token'' := None, ''refreshToken'' := None)\<rparr>)
   \<and> (\<exists>n. snd (turns srv n (spawn logout w)) =
           snd (run srv (api_post ''/auth/logout'' NoData) w)
      \<and> result (fst (turns srv n (spawn logout w))) = None
      \<and> snd (turns srv (Suc n) (spawn logout w)) =
         (snd (run srv (api_post ''/auth/logout'' NoData) w))
           \<lparr>storage := (storage (snd (run srv (api_post ''/auth/logout'' NoData) w)))
              (''token'' := None)\<rparr>
      \<and> result (fst (turns srv (Suc n) (spawn logout w))) = None
      \<and> snd (turns srv (Suc (Suc n)) (spawn logout w)) =
         (snd (run srv (api_post ''/auth/logout'' NoData) w))
           \<lparr>storage := (storage (snd (run srv (api_post ''/auth/logout'' NoData) w)))
              (''token'' := None, ''refreshToken'' := None)\<rparr>
      \<and> result (fst (turns srv (Suc (Suc n)) (spawn logout w))) \<noteq> None)"
proof (intro conjI impI; (elim conjE)?)
  assume a: "srv (net w) (login_config u p) = Reply st d" "validateStatus st"
  show "snd (turns srv 3 (spawn (login u p) w)) =
        w\<lparr>net := net w @ [login_config u p],
          storage := (storage w)(''token'' \<mapsto> access_token d)\<rparr>"
    by (simp add: login_turns(1) [where srv = srv, OF a])
  show "result (fst (turns srv 3 (spawn (login u p) w))) = None"
    by (simp add: login_turns(1) [where srv = srv, OF a])
  show "snd (turns srv 4 (spawn (login u p) w)) =
        w\<lparr>net := net w @ [login_config u p],
          storage := (storage w)(''token'' \<mapsto> access_token d,
                                 ''refreshToken'' \<mapsto> refresh_token d)\<rparr>"
    by (simp add: login_turns(2) [where srv = srv, OF a])
next
  assume a: "is401 error" "truthy (storage w ''refreshToken'')"
    "srv (net w) (refresh_config (the (storage w ''refreshToken''))) = Reply st d"
    "validateStatus st"
  show "snd (turns srv 4 (spawn (response_interceptor error) w)) =
        w\<lparr>net := net w @ [refresh_config (the (storage w ''refreshToken''))],
          storage := (storage w)(''token'' \<mapsto> access_token d)\<rparr>"
    by (rule refresh_turns(1) [where srv = srv, OF a])
  show "result (fst (turns srv 4 (spawn (response_interceptor error) w))) = None"
    by (rule refresh_turns(2) [where srv = srv, OF a])
  show "snd (turns srv 5 (spawn (response_interceptor error) w)) =
        w\<lparr>net := net w @ [refresh_config (the (storage w ''refreshToken''))],
          storage := (storage w)(''token'' \<mapsto> access_token d,
                                 ''refreshToken'' \<mapsto> refresh_token d)\<rparr>"
    by (rule refresh_turns(3) [where srv = srv, OF a])
next
  assume a: "is401 error" "\<not> truthy (storage w ''refreshToken'')"
  show "snd (turns srv 2 (spawn (response_interceptor error) w)) =
        w\<lparr>storage := (storage w)(''token'' := None)\<rparr>"
    by (rule clear_turns(1) [where srv = srv, OF a])
  show "result (fst (turns srv 2 (spawn (response_interceptor error) w))) = None"
    by (rule clear_turns(2) [where srv = srv, OF a])
  show "snd (turns srv 3 (spawn (response_interceptor error) w)) =
        w\<lparr>storage := (storage w)(''token'' := None, ''refreshToken'' := None)\<rparr>"
    by (rule clear_turns(3) [where srv = srv, OF a])
next
  assume a: "is401 error" "truthy (storage w ''refreshToken'')"
    "settled (refresh_config (the (storage w ''refreshToken'')))
       (srv (net w) (refresh_config (the (storage w ''refreshToken'')))) = Rejected e"
  show "snd (turns srv 4 (spawn (response_interceptor error) w)) =
        w\<lparr>net := net w @ [refresh_config (the (storage w ''refreshToken''))],
          storage := (storage w)(''token'' := None)\<rparr>"
    by (rule refresh_failed_turns(1) [where srv = srv, OF a])
  show "result (fst (turns srv 4 (spawn (response_interceptor error) w))) = None"
    by (rule refresh_failed_turns(2) [where srv = srv, OF a])
  show "snd (turns srv 5 (spawn (response_interceptor error) w)) =
        w\<lparr>net := net w @ [refresh_config (the (storage w ''refreshToken''))],
          storage := (storage w)(''token'' := None, ''refreshToken'' := None)\<rparr>"
    by (rule refresh_failed_turns(3) [where srv = srv, OF a])
next
  assume a: "\<not> AuthExpired (settled (with_token w (logout_config None))
             (srv (net w) (with_token w (logout_config None))))"
  note l = logout_turns_general [where srv = srv, OF a]
  show "snd (turns srv 4 (spawn logout w)) =
        w\<lparr>net := net w @ [with_token w (logout_config None)],
          storage := (storage w)(''token'' := None)\<rparr>"
    using l by blast
  show "result (fst (turns srv 4 (spawn logout w))) = None"
    using l by blast
  show "snd (turns srv 5 (spawn logout w)) =
        w\<lparr>net := net w @ [with_token w (logout_config None)],
          storage := (storage w)(''token'' := None, ''refreshToken'' := None)\<rparr>"
    using l by blast
next
  show "\<exists>n. snd (turns srv n (spawn logout w)) =
           snd (run srv (api_post ''/auth/logout'' NoData) w)
      \<and> result (fst (turns srv n (spawn logout w))) = None
      \<and> snd (turns srv (Suc n) (spawn logout w)) =
         (snd (run srv (api_post ''/auth/logout'' NoData) w))
           \<lparr>storage := (storage (snd (run srv (api_post ''/auth/logout'' NoData) w)))
              (''token'' := None)\<rparr>
      \<and> result (fst (turns srv (Suc n) (spawn logout w))) = None
      \<and> snd (turns srv (Suc (Suc n)) (spawn logout w)) =
         (snd (run srv (api_post ''/auth/logout'' NoData) w))
           \<lparr>storage := (storage (snd (run srv (api_post ''/auth/logout'' NoData) w)))
              (''token'' := None, ''refreshToken'' := None)\<rparr>
      \<and> result (fst (turns srv (Suc (Suc n)) (spawn logout w))) \<noteq> None"
    by (rule logout_clears_in_two_turns)
qed

theorem token_pair_is_written_access_token_first_witness:
  "storage (snd (turns login_only 3 (spawn (login ''alice'' ''Secret123'') fresh))) =
       [''token'' \<mapsto> ''A1'']
   \<and> storage (snd (turns login_only 4 (spawn (login ''alice'' ''Secret123'') fresh))) =
       [''token'' \<mapsto> ''A1'', ''refreshToken'' \<mapsto> ''R1'']
   \<and> storage (snd (turns login_only 3 (spawn (response_interceptor e401) fresh))) = Map.empty
   \<and> storage (snd (turns refresh_only 4 (spawn (response_interceptor e401) (signed_in ''A1'' ''R1'')))) =
       [''token'' \<mapsto> ''A2'', ''refreshToken'' \<mapsto> ''R1'']
   \<and> storage (snd (turns refresh_only 5 (spawn (response_interceptor e401) (signed_in ''A1'' ''R1'')))) =
       [''token'' \<mapsto> ''A2'', ''refreshToken'' \<mapsto> ''R2'']
   \<and> storage (snd (turns (always NoResponse) 4 (spawn (response_interceptor e401) (signed_in ''A1'' ''R1'')))) =
       [''refreshToken'' \<mapsto> ''R1'']
   \<and> storage (snd (turns (always NoResponse) 5 (spawn (response_interceptor e401) (signed_in ''A1'' ''R1'')))) =
       Map.empty
   \<and> storage (snd (turns (always NoResponse) 4 (spawn logout (signed_in ''A1'' ''R1'')))) =
       [''refreshToken'' \<mapsto> ''R1'']
   \<and> storage (snd (turns (always NoResponse) 5 (spawn logout (signed_in ''A1'' ''R1'')))) =
       Map.empty
   \<and> storage (snd (turns refresh_only 4 (spawn logout (signed_in ''A1'' ''R1'')))) ''token'' =
       Some ''A1''
   \<and> storage (snd (turns refresh_only 10 (spawn logout (signed_in ''A1'' ''R1'')))) =
       [''token'' \<mapsto> ''A2'', ''refreshToken'' \<mapsto> ''R2'']
   \<and> storage (snd (turns refresh_only 11 (spawn logout (signed_in ''A1'' ''R1'')))) =
       [''refreshToken'' \<mapsto> ''R2'']
   \<and> storage (snd (turns refresh_only 12 (spawn logout (signed_in ''A1'' ''R1'')))) = Map.empty
   \<and> result (fst (turns refresh_only 12 (spawn logout (signed_in ''A1'' ''R1'')))) \<noteq> None"
proof -
  have h1: "login_only (net fresh) (login_config ''alice'' ''Secret123'') =
      Reply 200 (token_body ''A1'' ''R1'')"
    by (simp add: login_only_def login_config_def)
  have h2: "validateStatus 200" by (simp add: validateStatus_def)
  have h3: "is401 e401" by (simp add: e401_def is401_def)
  have h4: "\<not> truthy (storage fresh ''refreshToken'')" by (simp add: fresh_def)
  have h5: "truthy (storage (signed_in ''A1'' ''R1'') ''refreshToken'')"
    and h5': "the (storage (signed_in ''A1'' ''R1'') ''refreshToken'') = ''R1''"
    by (simp_all add: signed_in_def)
  have h6: "refresh_only (net (signed_in ''A1'' ''R1''))
      (refresh_config (the (storage (signed_in ''A1'' ''R1'') ''refreshToken''))) =
      Reply 200 (token_body ''A2'' ''R2'')"
    by (simp add: refresh_only_def refresh_config_def)
  have h7: "settled (refresh_config (the (storage (signed_in ''A1'' ''R1'') ''refreshToken'')))
      (always NoResponse (net (signed_in ''A1'' ''R1''))
        (refresh_config (the (storage (signed_in ''A1'' ''R1'') ''refreshToken'')))) =
      Rejected (NetworkError (refresh_config ''R1''))"
    by (simp add: always_def h5')
  have h8: "\<not> AuthExpired (settled (with_token (signed_in ''A1'' ''R1'') (logout_config None))
      (always NoResponse (net (signed_in ''A1'' ''R1''))
        (with_token (signed_in ''A1'' ''R1'') (logout_config None))))"
    by (simp add: always_def is401_def)
  note a = token_pair_is_written_access_token_first
    [where srv = login_only and w = fresh and u = "''alice''" and p = "''Secret123''"
      and st = 200 and d = "token_body ''A1'' ''R1''" and error = e401]
  note b = token_pair_is_written_access_token_first
    [where srv = refresh_only and w = "signed_in ''A1'' ''R1''" and st = 200
      and d = "token_body ''A2'' ''R2''" and error = e401]
  note c = token_pair_is_written_access_token_first
    [where srv = "always NoResponse" and w = "signed_in ''A1'' ''R1''" and error = e401
      and e = "NetworkError (refresh_config ''R1'')"]
  from a h1 h2 h3 h4
  have 1: "snd (turns login_only 3 (spawn (login ''alice'' ''Secret123'') fresh)) =
        fresh\<lparr>net := net fresh @ [login_config ''alice'' ''Secret123''],
          storage := (storage fresh)(''token'' \<mapsto> access_token (token_body ''A1'' ''R1''))\<rparr>"
    and 2: "snd (turns login_only 4 (spawn (login ''alice'' ''Secret123'') fresh)) =
        fresh\<lparr>net := net fresh @ [login_config ''alice'' ''Secret123''],
          storage := (storage fresh)(''token'' \<mapsto> access_token (token_body ''A1'' ''R1''),
             ''refreshToken'' \<mapsto> refresh_token (token_body ''A1'' ''R1''))\<rparr>"
    and 3: "snd (turns login_only 3 (spawn (response_interceptor e401) fresh)) =
        fresh\<lparr>storage := (storage fresh)(''token'' := None, ''refreshToken'' := None)\<rparr>"
    by blast+
  from b h2 h3 h5 h6
  have 4: "snd (turns refresh_only 4 (spawn (response_interceptor e401) (signed_in ''A1'' ''R1''))) =
        (signed_in ''A1'' ''R1'')\<lparr>net := net (signed_in ''A1'' ''R1'') @
            [refresh_config (the (storage (signed_in ''A1'' ''R1'') ''refreshToken''))],
          storage := (storage (signed_in ''A1'' ''R1''))
            (''token'' \<mapsto> access_token (token_body ''A2'' ''R2''))\<rparr>"
    and 5: "snd (turns refresh_only 5 (spawn (response_interceptor e401) (signed_in ''A1'' ''R1''))) =
        (signed_in ''A1'' ''R1'')\<lparr>net := net (signed_in ''A1'' ''R1'') @
            [refresh_config (the (storage (signed_in ''A1'' ''R1'') ''refreshToken''))],
          storage := (storage (signed_in ''A1'' ''R1''))
            (''token'' \<mapsto> access_token (token_body ''A2'' ''R2''),
             ''refreshToken'' \<mapsto> refresh_token (token_body ''A2'' ''R2''))\<rparr>"
    by blast+
  from c h3 h5 h7 h8
  have 6: "snd (turns (always NoResponse) 4 (spawn (response_interceptor e401) (signed_in ''A1'' ''R1''))) =
        (signed_in ''A1'' ''R1'')\<lparr>net := net (signed_in ''A1'' ''R1'') @
            [refresh_config (the (storage (signed_in ''A1'' ''R1'') ''refreshToken''))],
          storage := (storage (signed_in ''A1'' ''R1''))(''token'' := None)\<rparr>"
    and 7: "snd (turns (always NoResponse) 5 (spawn (response_interceptor e401) (signed_in ''A1'' ''R1''))) =
        (signed_in ''A1'' ''R1'')\<lparr>net := net (signed_in ''A1'' ''R1'') @
            [refresh_config (the (storage (signed_in ''A1'' ''R1'') ''refreshToken''))],
          storage := (storage (signed_in ''A1'' ''R1''))(''token'' := None, ''refreshToken'' := None)\<rparr>"
    and 8: "snd (turns (always NoResponse) 4 (spawn logout (signed_in ''A1'' ''R1''))) =
        (signed_in ''A1'' ''R1'')\<lparr>net := net (signed_in ''A1'' ''R1'') @
            [with_token (signed_in ''A1'' ''R1'') (logout_config None)],
          storage := (storage (signed_in ''A1'' ''R1''))(''token'' := None)\<rparr>"
    and 9: "snd (turns (always NoResponse) 5 (spawn logout (signed_in ''A1'' ''R1''))) =
        (signed_in ''A1'' ''R1'')\<lparr>net := net (signed_in ''A1'' ''R1'') @
            [with_token (signed_in ''A1'' ''R1'') (logout_config None)],
          storage := (storage (signed_in ''A1'' ''R1''))(''token'' := None, ''refreshToken'' := None)\<rparr>"
    by blast+
  have answered_401:
    "storage (snd (turns refresh_only 4 (spawn logout (signed_in ''A1'' ''R1'')))) ''token'' =
       Some ''A1''
     \<and> storage (snd (turns refresh_only 10 (spawn logout (signed_in ''A1'' ''R1'')))) =
       [''token'' \<mapsto> ''A2'', ''refreshToken'' \<mapsto> ''R2'']
     \<and> storage (snd (turns refresh_only 11 (spawn logout (signed_in ''A1'' ''R1'')))) =
       [''refreshToken'' \<mapsto> ''R2'']
     \<and> storage (snd (turns refresh_only 12 (spawn logout (signed_in ''A1'' ''R1'')))) =
       Map.empty
     \<and> result (fst (turns refresh_only 12 (spawn logout (signed_in ''A1'' ''R1'')))) \<noteq> None"
    by (simp add: turn_defs logout_def api_post_def api_def request_interceptor_def axios_def
        response_interceptor_def adopt_def signed_in_def refresh_only_def validateStatus_def
        is401_def refresh_config_def token_body_def fun_upd_twist)
  have "storage (snd (turns login_only 3 (spawn (login ''alice'' ''Secret123'') fresh))) =
       [''token'' \<mapsto> ''A1'']
   \<and> storage (snd (turns login_only 4 (spawn (login ''alice'' ''Secret123'') fresh))) =
       [''token'' \<mapsto> ''A1'', ''refreshToken'' \<mapsto> ''R1'']
   \<and> storage (snd (turns login_only 3 (spawn (response_interceptor e401) fresh))) = Map.empty
   \<and> storage (snd (turns refresh_only 4 (spawn (response_interceptor e401) (signed_in ''A1'' ''R1'')))) =
       [''token'' \<mapsto> ''A2'', ''refreshToken'' \<mapsto> ''R1'']
   \<and> storage (snd (turns refresh_only 5 (spawn (response_interceptor e401) (signed_in ''A1'' ''R1'')))) =
       [''token'' \<mapsto> ''A2'', ''refreshToken'' \<mapsto> ''R2'']
   \<and> storage (snd (turns (always NoResponse) 4 (spawn (response_interceptor e401) (signed_in ''A1'' ''R1'')))) =
       [''refreshToken'' \<mapsto> ''R1'']
   \<and> storage (snd (turns (always NoResponse) 5 (spawn (response_interceptor e401) (signed_in ''A1'' ''R1'')))) =
       Map.empty
   \<and> storage (snd (turns (always NoResponse) 4 (spawn logout (signed_in ''A1'' ''R1'')))) =
       [''refreshToken'' \<mapsto> ''R1'']
   \<and> storage (snd (turns (always NoResponse) 5 (spawn logout (signed_in ''A1'' ''R1'')))) =
       Map.empty"
    unfolding 1 2 3 4 5 6 7 8 9
    by (simp add: fresh_def token_body_def signed_in_def fun_upd_twist)
  with answered_401 show ?thesis by blast
qed

text \<open>
  The claim as written has no point at which exactly one of the two tokens is present.
  First login on a fresh installation: after the third turn of \<^verbatim>\<open>login\<close> (request sent,
  reply received, first \<^verbatim>\<open>setItem\<close> done) the task is suspended, the access token is
  stored and the refresh token is not.
\<close>

theorem login_leaves_partial_pair_at_suspension:
  "storage (snd (turns login_only 3 (spawn (login ''alice'' ''Secret123'') fresh))) ''token'' =
      Some ''A1''
   \<and> storage (snd (turns login_only 3 (spawn (login ''alice'' ''Secret123'') fresh)))
        ''refreshToken'' = None
   \<and> result (fst (turns login_only 3 (spawn (login ''alice'' ''Secret123'') fresh))) = None"
  by (simp add: turn_defs login_def axios_def login_only_def login_config_def
      validateStatus_def fresh_def token_body_def)

section \<open>Concurrent 401 responses\<close>
















lemma net_settle: "net (snd (settle p w)) = net w"
  by (induction p arbitrary: w) simp_all

lemma length_sched: "length (fst (sched srv sch (ts, w))) = length ts"
  by (induction sch arbitrary: ts w) (auto split: prod.splits)







section \<open>Sign-out while a refresh is in flight\<close>

lemmas race_defs = profile_and_signOut_def refresh_in_flight_def signOut_runs_def refresh_lands_def
  stale_A1_def loadUserProfile_def getUserProfile_def signOut_def logout_def api_post_def
  tokens_cleared_def

text \<open>
  The claim as written lets no refresh that resolves after a sign-out write the store.
  Scenario 5 of the specification, run on the code: the refresh of a profile reload is in
  flight when \<^verbatim>\<open>signOut\<close> is called; \<^verbatim>\<open>signOut\<close> resolves with the store cleared and the
  session signed out; then the refresh reply arrives. The store ends with the new pair
  \<^verbatim>\<open>A2\<close>, \<^verbatim>\<open>R2\<close> and the reload resolves instead of failing.
\<close>

theorem refresh_after_signOut_repopulates_store:
  "is_Waiting (fst (sched stale_A1 refresh_in_flight profile_and_signOut) ! 0)
   \<and> result (fst (sched stale_A1 (refresh_in_flight @ signOut_runs) profile_and_signOut) ! 1) = Some (Resolved ())
   \<and> tokens_cleared (snd (sched stale_A1 (refresh_in_flight @ signOut_runs) profile_and_signOut))
   \<and> \<not> isSignedIn (snd (sched stale_A1 (refresh_in_flight @ signOut_runs) profile_and_signOut))
   \<and> storage (snd (sched stale_A1 (refresh_in_flight @ signOut_runs @ refresh_lands) profile_and_signOut)) ''token'' = Some ''A2''
   \<and> storage (snd (sched stale_A1 (refresh_in_flight @ signOut_runs @ refresh_lands) profile_and_signOut)) ''refreshToken'' = Some ''R2''
   \<and> result (fst (sched stale_A1 (refresh_in_flight @ signOut_runs @ refresh_lands) profile_and_signOut) ! 0) = Some (Resolved ())"
  by (simp add: race_defs eval_defs)

lemma run_signOut_cleared: "tokens_cleared (snd (run srv signOut w))"
proof -
  obtain r w' where a: "run srv (api_post ''/auth/logout'' NoData) (w\<lparr>isLoading := True\<rparr>) = (r, w')"
    by (cases "run srv (api_post ''/auth/logout'' NoData) (w\<lparr>isLoading := True\<rparr>)")
  show ?thesis
    by (cases r) (simp_all add: run_signOut run_logout a tokens_cleared_def clear_tokens_def)
qed

lemma refresh_is_pending:
  assumes "is401 error" and "truthy (storage w ''refreshToken'')"
    and "srv (net w) (refresh_config (the (storage w ''refreshToken''))) = Reply st d"
    and "validateStatus st"
  shows "turns srv 2 (Ready (response_interceptor error), w) =
     (Waiting (SetItem ''token'' (access_token d) (SetItem ''refreshToken'' (refresh_token d)
        (axios ((error_config error)\<lparr>Authorization := Some (''Bearer '' @ access_token d)\<rparr>)))),
      w\<lparr>net := net w @ [refresh_config (the (storage w ''refreshToken''))]\<rparr>)"
  using assms by (simp add: eval_nat_numeral response_interceptor_def adopt_def axios_def resume_def
      cong: if_cong)

lemma pending_refresh_resumes:
  "snd (turns srv 3 (Waiting (SetItem ''token'' a (SetItem ''refreshToken'' r (axios c))), w)) =
     w\<lparr>storage := (storage w)(''token'' \<mapsto> a, ''refreshToken'' \<mapsto> r)\<rparr>"
  "result (fst (turns srv 5 (Waiting (SetItem ''token'' a (SetItem ''refreshToken'' r (axios c))), w))) =
     Some (settled c (srv (net w) c))"
  "snd (turns srv 5 (Waiting (SetItem ''token'' a (SetItem ''refreshToken'' r (axios c))), w)) =
     w\<lparr>storage := (storage w)(''token'' \<mapsto> a, ''refreshToken'' \<mapsto> r), net := net w @ [c]\<rparr>"
  by (cases "srv (net w) c"; simp add: eval_nat_numeral axios_def resume_def)+

text \<open>
  Claim C3, as the code has it. A handler has sent its refresh request, which the server
  accepts, and waits for the reply. Meanwhile \<^verbatim>\<open>signOut\<close> runs to its end: the store is
  cleared at that point. Nothing cancels the handler. When the reply arrives it writes
  the new pair into the store, leaves everything else as \<^verbatim>\<open>signOut\<close> left it (so
  \<^verbatim>\<open>isSignedIn\<close> is not changed), replays the request with the new access token, and
  settles as the replay does.
\<close>

theorem signOut_does_not_cancel_pending_refresh:
  assumes "is401 error" and "truthy (storage w ''refreshToken'')"
    and "srv (net w) (refresh_config (the (storage w ''refreshToken''))) = Reply st d"
    and "validateStatus st"
    and "pending = turns srv 2 (Ready (response_interceptor error), w)"
    and "w' = snd (run srv signOut (snd pending))"
    and "replay = (error_config error)\<lparr>Authorization := Some (''Bearer '' @ access_token d)\<rparr>"
  shows "is_Waiting (fst pending)
       \<and> tokens_cleared w'
       \<and> snd (turns srv 3 (fst pending, w')) =
           w'\<lparr>storage := (storage w')(''token'' \<mapsto> access_token d, ''refreshToken'' \<mapsto> refresh_token d)\<rparr>
       \<and> result (fst (turns srv 5 (fst pending, w'))) = Some (settled replay (srv (net w') replay))
       \<and> snd (turns srv 5 (fst pending, w')) =
           w'\<lparr>storage := (storage w')(''token'' \<mapsto> access_token d, ''refreshToken'' \<mapsto> refresh_token d),
              net := net w' @ [replay]\<rparr>"
  unfolding assms(5-) refresh_is_pending [where srv = srv, OF assms(1-4)]
  by (simp add: run_signOut_cleared pending_refresh_resumes del: turns.simps)

theorem signOut_does_not_cancel_pending_refresh_witness:
  "is401 e401 \<and> truthy (storage (signed_in ''A1'' ''R1'') ''refreshToken'')
   \<and> is_Waiting (fst (turns stale_A1 2 (Ready (response_interceptor e401), signed_in ''A1'' ''R1'')))
   \<and> tokens_cleared (snd (run stale_A1 signOut
        (snd (turns stale_A1 2 (Ready (response_interceptor e401), signed_in ''A1'' ''R1'')))))
   \<and> storage (snd (turns stale_A1 3
        (fst (turns stale_A1 2 (Ready (response_interceptor e401), signed_in ''A1'' ''R1'')),
         snd (run stale_A1 signOut
           (snd (turns stale_A1 2 (Ready (response_interceptor e401), signed_in ''A1'' ''R1''))))))) ''token''
       = Some ''A2''"
proof -
  have h1: "is401 e401" by (simp add: e401_def is401_def)
  have h2: "truthy (storage (signed_in ''A1'' ''R1'') ''refreshToken'')"
    by (simp add: signed_in_def)
  have h3: "stale_A1 (net (signed_in ''A1'' ''R1''))
      (refresh_config (the (storage (signed_in ''A1'' ''R1'') ''refreshToken''))) =
      Reply 200 (token_body ''A2'' ''R2'')"
    by (simp add: stale_A1_def refresh_config_def)
  have h4: "validateStatus 200" by (simp add: validateStatus_def)
  from signOut_does_not_cancel_pending_refresh [where srv = stale_A1, OF h1 h2 h3 h4 refl refl refl] h1 h2
  show ?thesis by (simp add: token_body_def)
qed

end
